theory Spec2Isabelle
  imports Complex_Main "HOL-Library.List_Lexorder"
begin

section \<open>Python strings as lists of code points\<close>

text \<open>
  The program is Python 3: a \<^verbatim>\<open>str\<close> is a sequence of Unicode code points, and the
  bulletins and the correction table are Cyrillic. A string is therefore modelled as a
  list of code points (natural numbers), not as a list of bytes.

  The character properties Python takes from the Unicode database are tabulated here for
  Basic Latin (U+0000..U+007F) and for the Cyrillic letters U+0400..U+045F, U+0490 and
  U+0491, the alphabet of the bulletins. The white-space table is the complete one of
  \<^verbatim>\<open>str.isspace\<close>. Two further code points are tabulated because a result below needs
  them: U+01F0 (a lower-case letter whose title-case and upper-case mapping is the two code
  points U+004A U+030C) and U+030C (a combining mark, not cased). Every other code point is
  treated as caseless and as no digit; results that depend on the case tables are stated
  for strings over the tabulated alphabet.
\<close>

type_synonym pystr = "nat list"

definition isspace_cp :: "nat \<Rightarrow> bool" where
  "isspace_cp c \<longleftrightarrow>
     (0x9 \<le> c \<and> c \<le> 0xD) \<or> (0x1C \<le> c \<and> c \<le> 0x20) \<or> c = 0x85 \<or> c = 0xA0 \<or>
     c = 0x1680 \<or> (0x2000 \<le> c \<and> c \<le> 0x200A) \<or> c = 0x2028 \<or> c = 0x2029 \<or>
     c = 0x202F \<or> c = 0x205F \<or> c = 0x3000"

definition isdigit_cp :: "nat \<Rightarrow> bool" where
  "isdigit_cp c \<longleftrightarrow> 0x30 \<le> c \<and> c \<le> 0x39"

definition iscased_cp :: "nat \<Rightarrow> bool" where
  "iscased_cp c \<longleftrightarrow>
     (0x41 \<le> c \<and> c \<le> 0x5A) \<or> (0x61 \<le> c \<and> c \<le> 0x7A) \<or>
     (0x400 \<le> c \<and> c \<le> 0x45F) \<or> c = 0x490 \<or> c = 0x491 \<or> c = 0x1F0"

definition tolower_cp :: "nat \<Rightarrow> nat" where
  "tolower_cp c =
     (if (0x41 \<le> c \<and> c \<le> 0x5A) \<or> (0x410 \<le> c \<and> c \<le> 0x42F) then c + 32
      else if 0x400 \<le> c \<and> c \<le> 0x40F then c + 80
      else if c = 0x490 then 0x491
      else c)"

definition toupper_cp :: "nat \<Rightarrow> nat" where
  "toupper_cp c =
     (if (0x61 \<le> c \<and> c \<le> 0x7A) \<or> (0x430 \<le> c \<and> c \<le> 0x44F) then c - 32
      else if 0x450 \<le> c \<and> c \<le> 0x45F then c - 80
      else if c = 0x491 then 0x490
      else c)"

text \<open>The full case mappings give a string for each code point.\<close>

definition lower_full :: "nat \<Rightarrow> pystr" where
  "lower_full c = [tolower_cp c]"

definition upper_full :: "nat \<Rightarrow> pystr" where
  "upper_full c = (if c = 0x1F0 then [0x4A, 0x30C] else [toupper_cp c])"

definition title_full :: "nat \<Rightarrow> pystr" where
  "title_full c = (if c = 0x1F0 then [0x4A, 0x30C] else [toupper_cp c])"

definition py_lower :: "pystr \<Rightarrow> pystr" where
  "py_lower s = concat (map lower_full s)"

definition py_upper :: "pystr \<Rightarrow> pystr" where
  "py_upper s = concat (map upper_full s)"

text \<open>
  \<^verbatim>\<open>str.title\<close>: a code point that follows a cased one is lower-cased, any other is
  title-cased; whether the next one follows a cased one is decided on the input.
\<close>

fun do_title :: "bool \<Rightarrow> pystr \<Rightarrow> pystr" where
  "do_title previous_is_cased [] = []"
| "do_title previous_is_cased (c # cs) =
     (if previous_is_cased then lower_full c else title_full c) @ do_title (iscased_cp c) cs"

definition py_title :: "pystr \<Rightarrow> pystr" where
  "py_title s = do_title False s"

definition py_strip :: "pystr \<Rightarrow> pystr" where
  "py_strip s = rev (dropWhile isspace_cp (rev (dropWhile isspace_cp s)))"

text \<open>The tabulated alphabet.\<close>

definition tabulated :: "nat \<Rightarrow> bool" where
  "tabulated c \<longleftrightarrow> c < 0x80 \<or> (0x400 \<le> c \<and> c \<le> 0x45F) \<or> c = 0x490 \<or> c = 0x491"

text \<open>An ASCII literal as code points.\<close>

definition cps :: "string \<Rightarrow> pystr" where
  "cps s = map of_char s"

text \<open>On the tabulated alphabet title-casing maps code point to code point.\<close>

definition title_cp :: "bool \<Rightarrow> nat \<Rightarrow> nat" where
  "title_cp prev c = (if prev then tolower_cp c else toupper_cp c)"

text \<open>A string that \<^verbatim>\<open>strip\<close> leaves alone.\<close>

definition trimmed :: "pystr \<Rightarrow> bool" where
  "trimmed s \<longleftrightarrow> s = [] \<or> (\<not> isspace_cp (hd s) \<and> \<not> isspace_cp (last s))"

section \<open>The coordinate store: class SQLiteFlow\<close>

datatype py_error = AttributeError | IntegrityError | IndexError

text \<open>
  The attributes of a \<^verbatim>\<open>SQLiteFlow\<close> object that the methods read. The constructor assigns
  \<^verbatim>\<open>region_corrections\<close> last, so the attribute is optional: \<open>None\<close> is the object on
  which it has not been assigned yet.
\<close>

record SQLiteFlow =
  region_corrections :: "(pystr \<times> pystr) list option"

definition corrections_table :: "(pystr \<times> pystr) list" where
  "corrections_table =
     [([0x445, 0x43C, 0x435, 0x43B, 0x44C, 0x43D, 0x438, 0x447, 0x435, 0x43D, 0x430],
       [0x445, 0x43C, 0x435, 0x43B, 0x44C, 0x43D, 0x438, 0x447, 0x447, 0x438, 0x43D, 0x430]),
      ([0x445, 0x43C, 0x435, 0x43B, 0x44C, 0x43D, 0x438, 0x447, 0x435, 0x43D, 0x43D, 0x430],
       [0x445, 0x43C, 0x435, 0x43B, 0x44C, 0x43D, 0x438, 0x447, 0x447, 0x438, 0x43D, 0x430])]"

text \<open>The object once \<^verbatim>\<open>__init__\<close> has returned.\<close>

definition flow :: SQLiteFlow where
  "flow = \<lparr>region_corrections = Some corrections_table\<rparr>"

text \<open>The object while \<^verbatim>\<open>__init__\<close> runs \<^verbatim>\<open>clean_region_duplicates\<close>.\<close>

definition flow_in_init :: SQLiteFlow where
  "flow_in_init = \<lparr>region_corrections = None\<rparr>"

definition normalize_region_name :: "SQLiteFlow \<Rightarrow> pystr \<Rightarrow> py_error + pystr" where
  "normalize_region_name self region_name =
     (let cleaned = py_lower (py_strip region_name) in
      case region_corrections self of
        None \<Rightarrow> Inl AttributeError
      | Some table \<Rightarrow>
          (case map_of table cleaned of
             Some corrected \<Rightarrow> Inr (py_title corrected)
           | None \<Rightarrow> Inr (py_title (py_strip region_name))))"


subsection \<open>The two tables\<close>

text \<open>
  A row of \<^verbatim>\<open>cities\<close> and a row of \<^verbatim>\<open>regions\<close>. The column \<^verbatim>\<open>created_at\<close> is left out:
  no statement of the program reads it. Coordinates and confidences are Python floats; they
  are modelled as reals (the four bounds of the validity box are exact binary fractions, so
  comparing a finite float with them agrees with comparing its value).

  A table is the list of its rows in ascending \<^verbatim>\<open>id\<close>. Both tables are declared
  \<^verbatim>\<open>AUTOINCREMENT\<close>: a new row gets an identifier above every identifier the table has
  ever used, which the store remembers per table.
\<close>

record city_row =
  c_id :: nat
  c_city_name :: pystr
  c_region_name :: pystr
  c_latitude :: real
  c_longitude :: real
  c_confidence :: real
  c_source :: pystr

record region_row =
  r_id :: nat
  r_region_name :: pystr
  r_latitude :: real
  r_longitude :: real
  r_confidence :: real
  r_source :: pystr

record database =
  cities_tbl :: "city_row list"
  regions_tbl :: "region_row list"
  cities_seq :: nat
  regions_seq :: nat

text \<open>
  SQL \<^verbatim>\<open>LOWER\<close> as SQLite builds it in (Python's \<^verbatim>\<open>sqlite3\<close> loads no extension):
  it folds the letters A to Z and leaves every other code point alone.
\<close>

definition sql_lower :: "pystr \<Rightarrow> pystr" where
  "sql_lower s = map (\<lambda>c. if 0x41 \<le> c \<and> c \<le> 0x5A then c + 32 else c) s"

text \<open>The identifier \<^verbatim>\<open>AUTOINCREMENT\<close> gives the next row of a table.\<close>

definition next_id :: "nat list \<Rightarrow> nat \<Rightarrow> nat" where
  "next_id ids seq = Suc (fold max ids seq)"

text \<open>What a read returns: the dictionary of a hit.\<close>

record hit =
  hit_latitude :: real
  hit_longitude :: real
  hit_confidence :: real
  hit_source :: pystr

definition database_source :: "pystr \<Rightarrow> pystr" where
  "database_source src = cps ''database_'' @ src"

definition validate_ukraine_coordinates :: "real \<Rightarrow> real \<Rightarrow> bool" where
  "validate_ukraine_coordinates latitude longitude \<longleftrightarrow>
     (44.0 \<le> latitude \<and> latitude \<le> 52.5) \<and> (22.0 \<le> longitude \<and> longitude \<le> 40.5)"

definition get_city_coordinates :: "SQLiteFlow \<Rightarrow> database \<Rightarrow> pystr \<Rightarrow> pystr \<Rightarrow> hit option" where
  "get_city_coordinates self db city_name region_name =
     (case normalize_region_name self region_name of
        Inl e \<Rightarrow> None
      | Inr normalized_region \<Rightarrow>
          (case find (\<lambda>row. c_city_name row = city_name \<and> c_region_name row = normalized_region)
                  (cities_tbl db) of
             None \<Rightarrow> None
           | Some row \<Rightarrow>
               Some \<lparr>hit_latitude = c_latitude row, hit_longitude = c_longitude row,
                     hit_confidence = c_confidence row,
                     hit_source = database_source (c_source row)\<rparr>))"

text \<open>
  \<^verbatim>\<open>INSERT OR REPLACE\<close> on the key \<^verbatim>\<open>UNIQUE(city_name, region_name)\<close>: the row that holds
  the key, if any, is deleted and the new row is inserted under a fresh identifier.
\<close>

definition save_city_coordinates ::
  "SQLiteFlow \<Rightarrow> database \<Rightarrow> pystr \<Rightarrow> pystr \<Rightarrow> real \<Rightarrow> real \<Rightarrow> real \<Rightarrow> pystr \<Rightarrow> bool \<times> database"
where
  "save_city_coordinates self db city_name region_name latitude longitude confidence source =
     (if \<not> validate_ukraine_coordinates latitude longitude then (False, db)
      else
        case normalize_region_name self region_name of
          Inl e \<Rightarrow> (False, db)
        | Inr normalized_region \<Rightarrow>
            (let new_id = next_id (map c_id (cities_tbl db)) (cities_seq db);
                 kept = filter (\<lambda>row. \<not> (c_city_name row = city_name \<and>
                                           c_region_name row = normalized_region)) (cities_tbl db);
                 new_row = \<lparr>c_id = new_id, c_city_name = city_name,
                            c_region_name = normalized_region, c_latitude = latitude,
                            c_longitude = longitude, c_confidence = confidence,
                            c_source = source\<rparr>
             in (True, db\<lparr>cities_tbl := kept @ [new_row], cities_seq := new_id\<rparr>)))"

definition get_region_coordinates :: "database \<Rightarrow> pystr \<Rightarrow> hit option" where
  "get_region_coordinates db region_name =
     (case find (\<lambda>row. sql_lower (r_region_name row) = sql_lower (py_strip region_name))
             (regions_tbl db) of
        None \<Rightarrow> None
      | Some row \<Rightarrow>
          Some \<lparr>hit_latitude = r_latitude row, hit_longitude = r_longitude row,
                hit_confidence = r_confidence row,
                hit_source = database_source (r_source row)\<rparr>)"

definition save_region_coordinates ::
  "SQLiteFlow \<Rightarrow> database \<Rightarrow> pystr \<Rightarrow> real \<Rightarrow> real \<Rightarrow> real \<Rightarrow> pystr \<Rightarrow> bool \<times> database"
where
  "save_region_coordinates self db region_name latitude longitude confidence source =
     (if \<not> validate_ukraine_coordinates latitude longitude then (False, db)
      else
        case normalize_region_name self region_name of
          Inl e \<Rightarrow> (False, db)
        | Inr normalized_region \<Rightarrow>
            (case find (\<lambda>row. sql_lower (r_region_name row) = sql_lower normalized_region)
                    (regions_tbl db) of
               Some row \<Rightarrow> (True, db)
             | None \<Rightarrow>
                 (let new_id = next_id (map r_id (regions_tbl db)) (regions_seq db);
                      new_row = \<lparr>r_id = new_id, r_region_name = normalized_region,
                                 r_latitude = latitude, r_longitude = longitude,
                                 r_confidence = confidence, r_source = source\<rparr>
                  in (True, db\<lparr>regions_tbl := regions_tbl db @ [new_row], regions_seq := new_id\<rparr>))))"

text \<open>
  \<^verbatim>\<open>get_database_stats\<close>: the number of city rows, of distinct region names among them, of
  region rows, and the number of city rows per source.
\<close>

record stats =
  st_total_cities :: nat
  st_total_regions :: nat
  st_total_regions_with_coords :: nat
  st_sources :: "pystr \<Rightarrow> nat option"

definition get_database_stats :: "database \<Rightarrow> stats" where
  "get_database_stats db =
     \<lparr>st_total_cities = length (cities_tbl db),
      st_total_regions = length (remdups (map c_region_name (cities_tbl db))),
      st_total_regions_with_coords = length (regions_tbl db),
      st_sources = (\<lambda>src. if src \<in> set (map c_source (cities_tbl db))
                         then Some (length (filter (\<lambda>row. c_source row = src) (cities_tbl db)))
                         else None)\<rparr>"

subsection \<open>Reconciling duplicate regions\<close>

text \<open>\<^verbatim>\<open>str.split\<close> on a one-character separator, and SQL \<^verbatim>\<open>GROUP_CONCAT\<close>, which joins with a comma.\<close>

fun split_from :: "nat \<Rightarrow> pystr \<Rightarrow> pystr \<Rightarrow> pystr list" where
  "split_from sep piece [] = [piece]"
| "split_from sep piece (c # cs) =
     (if c = sep then piece # split_from sep [] cs else split_from sep (piece @ [c]) cs)"

definition split_on :: "nat \<Rightarrow> pystr \<Rightarrow> pystr list" where
  "split_on sep s = split_from sep [] s"

fun group_concat :: "pystr list \<Rightarrow> pystr" where
  "group_concat [] = []"
| "group_concat [x] = x"
| "group_concat (x # y # ys) = x @ [0x2C] @ group_concat (y # ys)"

text \<open>
  The query of \<^verbatim>\<open>clean_region_duplicates\<close>: one result row per value of
  \<^verbatim>\<open>LOWER(region_name)\<close> that more than one row of \<^verbatim>\<open>regions\<close> has, with the identifiers and
  the comma-joined names of those rows. SQLite reads the table through the index of the
  \<^verbatim>\<open>UNIQUE\<close> column and sorts on the key: the groups come in ascending order of the key and
  the rows of a group in ascending order of their names. The identifiers come back as decimal
  text that the program splits and converts; that round trip is the identity and the model
  keeps the list of identifiers.
\<close>

definition duplicate_groups :: "region_row list \<Rightarrow> (pystr \<times> nat \<times> nat list \<times> pystr) list" where
  "duplicate_groups rows =
     filter (\<lambda>(lower_name, count, ids, names_str). count > 1)
       (map (\<lambda>k. let members = sort_key r_region_name
                                  (filter (\<lambda>row. sql_lower (r_region_name row) = k) rows)
                  in (k, length members, map r_id members,
                      group_concat (map r_region_name members)))
            (sort (remdups (map (\<lambda>row. sql_lower (r_region_name row)) rows))))"

text \<open>\<^verbatim>\<open>list.index\<close> of an element that occurs.\<close>

fun index_of :: "nat \<Rightarrow> nat list \<Rightarrow> nat" where
  "index_of x [] = 0"
| "index_of x (y # ys) = (if x = y then 0 else Suc (index_of x ys))"

text \<open>
  \<^verbatim>\<open>UPDATE regions SET region_name = ? WHERE id = ?\<close> under \<^verbatim>\<open>region_name UNIQUE\<close>: it fails
  when another row holds the name.
\<close>

definition update_region_name :: "region_row list \<Rightarrow> nat \<Rightarrow> pystr \<Rightarrow> py_error + region_row list" where
  "update_region_name rows rid new_name =
     (if list_ex (\<lambda>row. r_id row = rid) rows \<and>
         list_ex (\<lambda>row. r_id row \<noteq> rid \<and> r_region_name row = new_name) rows
      then Inl IntegrityError
      else Inr (map (\<lambda>row. if r_id row = rid then row\<lparr>r_region_name := new_name\<rparr> else row) rows))"

text \<open>
  One round of the loop over the groups: the body keeps the row with the largest identifier,
  renames it to its normalized name and deletes the other rows of the group. An exception
  ends the loop.
\<close>

definition clean_group ::
  "SQLiteFlow \<Rightarrow> pystr \<times> nat \<times> nat list \<times> pystr \<Rightarrow> region_row list \<times> nat \<Rightarrow>
     py_error + (region_row list \<times> nat)"
where
  "clean_group self grp acc =
     (case grp of (lower_name, count, ids, names_str) \<Rightarrow>
      case acc of (rows, total_removed) \<Rightarrow>
        (let names = split_on 0x2C names_str;
             latest_id = fold max ids 0;
             latest_index = index_of latest_id ids
         in if length names \<le> latest_index then Inl IndexError
            else
              case normalize_region_name self (names ! latest_index) of
                Inl e \<Rightarrow> Inl e
              | Inr normalized_name \<Rightarrow>
                  (case update_region_name rows latest_id normalized_name of
                     Inl e \<Rightarrow> Inl e
                   | Inr rows' \<Rightarrow>
                       Inr (filter (\<lambda>row. r_id row \<notin> set (filter (\<lambda>i. i \<noteq> latest_id) ids)) rows',
                            total_removed + length (filter (\<lambda>i. i \<noteq> latest_id) ids)))))"

fun clean_groups ::
  "SQLiteFlow \<Rightarrow> (pystr \<times> nat \<times> nat list \<times> pystr) list \<Rightarrow> region_row list \<times> nat \<Rightarrow>
     py_error + (region_row list \<times> nat)"
where
  "clean_groups self [] acc = Inr acc"
| "clean_groups self (grp # grps) acc =
     (case clean_group self grp acc of
        Inl e \<Rightarrow> Inl e
      | Inr acc' \<Rightarrow> clean_groups self grps acc')"

text \<open>
  The whole method runs in one transaction: the \<^verbatim>\<open>with\<close> block commits when the loop ends
  and rolls back when an exception leaves it, and the handler then returns 0.
\<close>

definition clean_region_duplicates :: "SQLiteFlow \<Rightarrow> database \<Rightarrow> nat \<times> database" where
  "clean_region_duplicates self db =
     (case clean_groups self (duplicate_groups (regions_tbl db)) (regions_tbl db, 0) of
        Inl e \<Rightarrow> (0, db)
      | Inr (rows, total_removed) \<Rightarrow> (total_removed, db\<lparr>regions_tbl := rows\<rparr>))"

text \<open>
  The constructor, on a store whose tables exist: it runs \<^verbatim>\<open>clean_region_duplicates\<close>
  and only then assigns \<^verbatim>\<open>region_corrections\<close>.
\<close>

definition SQLiteFlow_init :: "database \<Rightarrow> SQLiteFlow \<times> database" where
  "SQLiteFlow_init db = (flow, snd (clean_region_duplicates flow_in_init db))"

text \<open>The values of a city row without its identifier.\<close>

definition city_fact :: "city_row \<Rightarrow> pystr \<times> pystr \<times> real \<times> real \<times> real \<times> pystr" where
  "city_fact row =
     (c_city_name row, c_region_name row, c_latitude row, c_longitude row, c_confidence row,
      c_source row)"

text \<open>The dictionary a read builds from the values of a city row.\<close>

definition hit_of_fact :: "pystr \<times> pystr \<times> real \<times> real \<times> real \<times> pystr \<Rightarrow> hit" where
  "hit_of_fact f = (case f of (n, r, la, lo, co, so) \<Rightarrow>
     \<lparr>hit_latitude = la, hit_longitude = lo, hit_confidence = co, hit_source = database_source so\<rparr>)"

section \<open>The extraction parser: extract_weapon_info\<close>

subsection \<open>Regular expressions\<close>

text \<open>
  The two patterns of the parser use single code points, greedy repetitions of a class of
  code points, sequence, alternation, greedy options and capturing groups. \<open>rmatch\<close> is the
  backtracking matcher of \<^verbatim>\<open>re\<close>: it returns every way to match at the start of the
  input, as the rest of the input and the captures, in the order in which backtracking
  tries them. \<^verbatim>\<open>re.search\<close> takes the first way at the leftmost start that has one.
\<close>

datatype regex =
    Eps
  | Cls "nat \<Rightarrow> bool"
  | Plus_cls "nat \<Rightarrow> bool"
  | Seq regex regex
  | Alt regex regex
  | Opt regex
  | Group nat regex

type_synonym captures = "nat \<Rightarrow> pystr option"

fun rmatch :: "regex \<Rightarrow> pystr \<Rightarrow> captures \<Rightarrow> (pystr \<times> captures) list" where
  "rmatch Eps s g = [(s, g)]"
| "rmatch (Cls p) s g = (case s of [] \<Rightarrow> [] | c # cs \<Rightarrow> if p c then [(cs, g)] else [])"
| "rmatch (Plus_cls p) s g =
     map (\<lambda>k. (drop k s, g)) (rev [1..<Suc (length (takeWhile p s))])"
| "rmatch (Seq a b) s g = concat (map (\<lambda>(s', g'). rmatch b s' g') (rmatch a s g))"
| "rmatch (Alt a b) s g = rmatch a s g @ rmatch b s g"
| "rmatch (Opt a) s g = rmatch a s g @ [(s, g)]"
| "rmatch (Group n a) s g =
     map (\<lambda>(s', g'). (s', g'(n \<mapsto> take (length s - length s') s))) (rmatch a s g)"

fun re_search :: "regex \<Rightarrow> pystr \<Rightarrow> captures option" where
  "re_search r [] = (case rmatch r [] Map.empty of [] \<Rightarrow> None | (s', g) # _ \<Rightarrow> Some g)"
| "re_search r (c # cs) =
     (case rmatch r (c # cs) Map.empty of [] \<Rightarrow> re_search r cs | (s', g) # _ \<Rightarrow> Some g)"

text \<open>
  A literal code point, as written and under \<^verbatim>\<open>re.IGNORECASE\<close>. Under \<^verbatim>\<open>IGNORECASE\<close> a
  code point matches when its lower case is the lower case of the literal or one of the
  code points the \<^verbatim>\<open>re\<close> module lists as case-equivalent to it.
\<close>

definition lit :: "nat \<Rightarrow> nat \<Rightarrow> bool" where
  "lit c ch \<longleftrightarrow> ch = c"

definition casefix :: "nat \<Rightarrow> nat list" where
  "casefix lo =
     (if lo = 0x432 then [0x1C80] else if lo = 0x434 then [0x1C81]
      else if lo = 0x43E then [0x1C82] else if lo = 0x441 then [0x1C83]
      else if lo = 0x442 then [0x1C84, 0x1C85] else if lo = 0x44A then [0x1C86]
      else [])"

definition lit_ignorecase :: "nat \<Rightarrow> nat \<Rightarrow> bool" where
  "lit_ignorecase c ch \<longleftrightarrow> tolower_cp ch \<in> set (tolower_cp c # casefix (tolower_cp c))"

text \<open>A word of literals, followed by the rest of the pattern.\<close>

definition word :: "(nat \<Rightarrow> nat \<Rightarrow> bool) \<Rightarrow> pystr \<Rightarrow> regex \<Rightarrow> regex" where
  "word m w rest = foldr (\<lambda>c r. Seq (Cls (m c)) r) w rest"

text \<open>The classes \<^verbatim>\<open>\s\<close>, \<^verbatim>\<open>\S\<close>, \<^verbatim>\<open>\d\<close> and the dot, which matches all but the line feed.\<close>

definition nonspace_cp :: "nat \<Rightarrow> bool" where
  "nonspace_cp c \<longleftrightarrow> \<not> isspace_cp c"

definition dot_cp :: "nat \<Rightarrow> bool" where
  "dot_cp c \<longleftrightarrow> c \<noteq> 0xA"

text \<open>
  The optional leading count shared by both patterns,
  \<^verbatim>\<open>(?:(\d+)x?\s+)?\<close> with the Cyrillic letter U+0445 for \<^verbatim>\<open>x\<close>.
\<close>

definition leading_count :: "(nat \<Rightarrow> nat \<Rightarrow> bool) \<Rightarrow> regex" where
  "leading_count m =
     Opt (Seq (Group 1 (Plus_cls isdigit_cp)) (Seq (Opt (Cls (m 0x445))) (Plus_cls isspace_cp)))"

text \<open>
  The grouped pattern, compiled with \<^verbatim>\<open>re.IGNORECASE\<close>: the optional count, one of the two
  spellings of the group keyword (U+0413 U+0420 U+0423 U+041F with an optional U+0418, or
  U+0413 U+0440 U+0443 U+043F with an optional U+0438), the category token U+041A U+0420,
  the destination marker (the words U+043A U+0443 U+0440 U+0441 U+043E U+043C and
  U+043D U+0430) and the destination, each separated by white space. The destination is
  group 2.
\<close>

definition group_kr_pattern :: regex where
  "group_kr_pattern =
     Seq (leading_count lit_ignorecase)
      (Seq (Alt (word lit_ignorecase [0x413, 0x420, 0x423, 0x41F] (Opt (Cls (lit_ignorecase 0x418))))
                (word lit_ignorecase [0x413, 0x440, 0x443, 0x43F] (Opt (Cls (lit_ignorecase 0x438)))))
      (Seq (Plus_cls isspace_cp)
      (word lit_ignorecase [0x41A, 0x420]
      (Seq (Plus_cls isspace_cp)
      (word lit_ignorecase [0x43A, 0x443, 0x440, 0x441, 0x43E, 0x43C]
      (Seq (Plus_cls isspace_cp)
      (word lit_ignorecase [0x43D, 0x430]
      (Seq (Plus_cls isspace_cp)
      (Group 2 (Plus_cls dot_cp))))))))))"

text \<open>
  The generic pattern, case-sensitive: the optional count, a token free of white space
  (group 2), the destination marker and the destination (group 3).
\<close>

definition standard_pattern :: regex where
  "standard_pattern =
     Seq (leading_count lit)
      (Seq (Group 2 (Plus_cls nonspace_cp))
      (Seq (Plus_cls isspace_cp)
      (word lit [0x43A, 0x443, 0x440, 0x441, 0x43E, 0x43C]
      (Seq (Plus_cls isspace_cp)
      (word lit [0x43D, 0x430]
      (Seq (Plus_cls isspace_cp)
      (Group 3 (Plus_cls dot_cp))))))))"

subsection \<open>The parser\<close>

text \<open>
  \<^verbatim>\<open>int\<close> on what \<^verbatim>\<open>(\d+)\<close> captured: the value of a string of decimal digits. (The
  refusal of \<^verbatim>\<open>int\<close>, from Python 3.11 on, to convert more than 4300 digits is not
  modelled.)
\<close>

definition py_int :: "pystr \<Rightarrow> int" where
  "py_int s = foldl (\<lambda>n c. 10 * n + int (c - 0x30)) 0 s"

text \<open>One extracted item, the dictionary with the keys of the same names.\<close>

record weapon =
  w_weapon_type :: pystr
  w_count :: int
  w_target_city :: pystr

text \<open>The canonical category token, the four code points U+0425 \<^verbatim>\<open>101\<close>.\<close>

definition canonical_token :: pystr where
  "canonical_token = [0x425, 0x31, 0x30, 0x31]"

text \<open>
  The result is a Python dictionary, which keeps the order of insertion: a list of pairs
  with distinct keys. \<open>dict_append\<close> is \<^verbatim>\<open>regions[k].append(w)\<close> for a key that is present.
\<close>

type_synonym regions_dict = "(pystr \<times> weapon list) list"

definition dict_append :: "regions_dict \<Rightarrow> pystr \<Rightarrow> weapon \<Rightarrow> regions_dict" where
  "dict_append regions k w = map (\<lambda>(k', ws). if k' = k then (k', ws @ [w]) else (k', ws)) regions"

definition endswith_colon :: "pystr \<Rightarrow> bool" where
  "endswith_colon line \<longleftrightarrow> line \<noteq> [] \<and> last line = 0x3A"

definition remove_colons :: "pystr \<Rightarrow> pystr" where
  "remove_colons line = filter (\<lambda>c. c \<noteq> 0x3A) line"

text \<open>
  The body of the loop over the lines; the state is the dictionary and
  \<^verbatim>\<open>current_region\<close>. The test \<^verbatim>\<open>if current_region:\<close> fails on \<^verbatim>\<open>None\<close> and on the empty
  string.
\<close>

definition process_line ::
  "regions_dict \<times> pystr option \<Rightarrow> pystr \<Rightarrow> regions_dict \<times> pystr option"
where
  "process_line st raw_line =
     (case st of (regions, current_region) \<Rightarrow>
       (let line = py_strip raw_line in
        if line = [] then (regions, current_region)
        else if endswith_colon line then
          (let region = remove_colons line
           in (if region \<in> set (map fst regions) then regions else regions @ [(region, [])],
               Some region))
        else
          (case current_region of
             None \<Rightarrow> (regions, current_region)
           | Some region \<Rightarrow>
               (if region = [] then (regions, current_region)
                else
                  (case re_search group_kr_pattern line of
                     Some g \<Rightarrow>
                       (let groups_count =
                              (case g 1 of None \<Rightarrow> 1 | Some count_str \<Rightarrow> py_int count_str);
                            total_count = groups_count * 2
                        in (dict_append regions region
                              \<lparr>w_weapon_type = canonical_token, w_count = total_count,
                               w_target_city = py_strip (the (g 2))\<rparr>,
                            current_region))
                   | None \<Rightarrow>
                       (case re_search standard_pattern line of
                          None \<Rightarrow> (regions, current_region)
                        | Some g \<Rightarrow>
                            (let count =
                                   (case g 1 of None \<Rightarrow> 1 | Some count_str \<Rightarrow> py_int count_str);
                                 weapon_type = the (g 2)
                             in (dict_append regions region
                                   \<lparr>w_weapon_type =
                                      (if py_upper weapon_type = [0x41A, 0x420]
                                       then canonical_token else weapon_type),
                                    w_count = count,
                                    w_target_city = py_strip (the (g 3))\<rparr>,
                                 current_region))))))))"

definition extract_weapon_info :: "pystr \<Rightarrow> regions_dict" where
  "extract_weapon_info text = fst (foldl process_line ([], None) (split_on 0xA (py_strip text)))"

text \<open>A pattern that assigns group \<open>n\<close> on every match.\<close>

fun sets_group :: "nat \<Rightarrow> regex \<Rightarrow> bool" where
  "sets_group n Eps = False"
| "sets_group n (Cls p) = False"
| "sets_group n (Plus_cls p) = False"
| "sets_group n (Seq a b) = (sets_group n a \<or> sets_group n b)"
| "sets_group n (Alt a b) = (sets_group n a \<and> sets_group n b)"
| "sets_group n (Opt a) = False"
| "sets_group n (Group m a) = (m = n \<or> sets_group n a)"

text \<open>A dictionary all of whose regions have no item.\<close>

definition no_events :: "regions_dict \<Rightarrow> bool" where
  "no_events regions \<longleftrightarrow> list_all (\<lambda>entry. snd entry = []) regions"

section \<open>The enrichment client: AIConverter._rate_limited_api_call\<close>

text \<open>
  The method talks to the service, sleeps and draws random numbers. The model takes what
  the outside supplies as parameters and returns what the method does as a trace:
  \<^item> \<open>service n\<close> is what \<^verbatim>\<open>generate_content\<close> does on attempt \<open>n\<close> (counted from 0): it
    returns a response with a text, returns nothing usable, or raises an exception with a
    message;
  \<^item> \<open>rnd n\<close> is the number in [0, 1) that \<^verbatim>\<open>random.random\<close> draws on attempt \<open>n\<close>;
    \<^verbatim>\<open>random.uniform(a, b)\<close> is \<open>a + (b - a) * rnd n\<close>;
  \<^item> \<open>time_since_last_call\<close> is the clock reading minus \<^verbatim>\<open>_last_api_call\<close> on entry;
  \<^item> the trace lists the calls of the service and the sleeps with their durations in
    seconds, in order. The assignments to \<^verbatim>\<open>_last_api_call\<close> are clock readings and are
    not part of the model.
  Durations are Python floats, modelled as reals.
\<close>

datatype attempt_outcome = Response pystr | No_response | Raises pystr

datatype api_event = Call nat | Sleep real

record api_config =
  api_delay :: real
  max_retries :: int

definition uniform :: "real \<Rightarrow> real \<Rightarrow> real \<Rightarrow> real" where
  "uniform a b u = a + (b - a) * u"

text \<open>The operator \<^verbatim>\<open>in\<close> on strings.\<close>

fun starts_with :: "pystr \<Rightarrow> pystr \<Rightarrow> bool" where
  "starts_with [] s = True"
| "starts_with (p # ps) [] = False"
| "starts_with (p # ps) (c # cs) = (p = c \<and> starts_with ps cs)"

fun contains :: "pystr \<Rightarrow> pystr \<Rightarrow> bool" where
  "contains sub [] = (sub = [])"
| "contains sub (c # cs) = (starts_with sub (c # cs) \<or> contains sub cs)"

definition is_quota_error :: "pystr \<Rightarrow> bool" where
  "is_quota_error error_message \<longleftrightarrow>
     contains (cps ''quota'') (py_lower error_message) \<or> contains (cps ''429'') error_message"

definition is_rate_limit_error :: "pystr \<Rightarrow> bool" where
  "is_rate_limit_error error_message \<longleftrightarrow> contains (cps ''rate limit'') (py_lower error_message)"

text \<open>
  The loop \<^verbatim>\<open>for attempt in range(self.max_retries)\<close>, over the attempts that remain. It
  returns the text or \<open>None\<close>, and the trace.
\<close>

fun retry_loop ::
  "api_config \<Rightarrow> (nat \<Rightarrow> attempt_outcome) \<Rightarrow> (nat \<Rightarrow> real) \<Rightarrow> nat list \<Rightarrow>
     pystr option \<times> api_event list"
where
  "retry_loop self service rnd [] = (None, [])"
| "retry_loop self service rnd (attempt # rest) =
     (case service attempt of
        Response text \<Rightarrow>
          if text \<noteq> [] then (Some (py_strip text), [Call attempt])
          else (let (r, tr) = retry_loop self service rnd rest in (r, Call attempt # tr))
      | No_response \<Rightarrow>
          (let (r, tr) = retry_loop self service rnd rest in (r, Call attempt # tr))
      | Raises error_message \<Rightarrow>
          if is_quota_error error_message then
            (if int attempt < max_retries self - 1 then
               (let backoff_time = (2 ^ attempt) * 10 + uniform 1 5 (rnd attempt);
                    (r, tr) = retry_loop self service rnd rest
                in (r, Call attempt # Sleep backoff_time # tr))
             else (None, [Call attempt]))
          else if is_rate_limit_error error_message then
            (if int attempt < max_retries self - 1 then
               (let backoff_time = api_delay self * (2 ^ attempt) + uniform 1 3 (rnd attempt);
                    (r, tr) = retry_loop self service rnd rest
                in (r, Call attempt # Sleep backoff_time # tr))
             else (None, [Call attempt]))
          else
            (if int attempt < max_retries self - 1 then
               (let (r, tr) = retry_loop self service rnd rest
                in (r, Call attempt # Sleep (1 + uniform 0.5 1.5 (rnd attempt)) # tr))
             else
               (let (r, tr) = retry_loop self service rnd rest in (r, Call attempt # tr))))"

definition rate_limited_api_call ::
  "api_config \<Rightarrow> real \<Rightarrow> (nat \<Rightarrow> attempt_outcome) \<Rightarrow> (nat \<Rightarrow> real) \<Rightarrow>
     pystr option \<times> api_event list"
where
  "rate_limited_api_call self time_since_last_call service rnd =
     (let throttle = (if time_since_last_call < api_delay self
                      then [Sleep (api_delay self - time_since_last_call)] else []);
          (r, tr) = retry_loop self service rnd [0..<nat (max_retries self)]
      in (r, throttle @ tr))"

text \<open>The trace of a run in which every attempt ends in a quota failure.\<close>

definition quota_trace :: "nat \<Rightarrow> (nat \<Rightarrow> real) \<Rightarrow> nat list \<Rightarrow> api_event list" where
  "quota_trace m rnd attempts =
     concat (map (\<lambda>n. if Suc n < m then [Call n, Sleep (10 * 2 ^ n + uniform 1 5 (rnd n))]
                       else [Call n]) attempts)"

text \<open>The default configuration and three error messages, one of each kind.\<close>

definition default_config :: api_config where
  "default_config = \<lparr>api_delay = 2, max_retries = 3\<rparr>"

definition quota_message :: pystr where
  "quota_message = cps ''429 Quota exceeded''"

definition rate_limit_message :: pystr where
  "rate_limit_message = cps ''Rate limit reached''"

definition other_message :: pystr where
  "other_message = cps ''Internal error''"

section \<open>The orchestrator\<close>

subsection \<open>One region: get_region_coordinates_from_ai\<close>

text \<open>
  An element of the list \<^verbatim>\<open>targets\<close>. The elements built from cache hits carry every
  key. The elements taken from the reply of the service are appended as they come: the keys
  \<^verbatim>\<open>weapon_type\<close>, \<^verbatim>\<open>count\<close>, \<^verbatim>\<open>confidence\<close> and \<^verbatim>\<open>source\<close> may be missing (\<open>None\<close>;
  for \<^verbatim>\<open>count\<close> also when the value is no number).
\<close>

record target =
  t_city :: pystr
  t_weapon_type :: "pystr option"
  t_count :: "real option"
  t_latitude :: real
  t_longitude :: real
  t_confidence :: "real option"
  t_source :: "pystr option"

text \<open>
  What one call of the enrichment client gives the orchestrator, after
  \<^verbatim>\<open>_rate_limited_api_call\<close>, \<^verbatim>\<open>clean_json_response\<close> and \<^verbatim>\<open>json.loads\<close>: no response
  (\<^verbatim>\<open>_rate_limited_api_call\<close> returned \<open>None\<close>), a text that is no JSON, or a JSON value. The
  JSON value is modelled by what the orchestrator reads of it. A key is absent, present
  with a value of the expected shape, or present with a value on which the code that reads
  it raises (\<open>Malformed\<close>); an element of \<^verbatim>\<open>targets\<close> is well-shaped or one on which the
  loop raises (\<open>Broken\<close>: it lacks \<^verbatim>\<open>coordinates\<close>, \<^verbatim>\<open>latitude\<close>, \<^verbatim>\<open>longitude\<close> or
  \<^verbatim>\<open>city\<close>).
\<close>

datatype 'a json_field = Absent | Malformed | Present 'a

datatype reply_target = Good target | Broken

record ai_result =
  ai_region_coordinates :: "(real \<times> real) json_field"
  ai_region_confidence :: "real option"
  ai_targets :: "reply_target list json_field"

datatype api_reply = Api_none | Json_error | Parsed ai_result

text \<open>The payload of a request: the region and the items sent with it.\<close>

record enrich_request =
  req_region :: pystr
  req_weapons :: "weapon list"

text \<open>What the method returns: an error dictionary or the region with its targets.\<close>

record region_result =
  res_region :: pystr
  res_targets :: "target list"
  res_coordinates_rn :: "(real \<times> real) option"

datatype coords_data = Error pystr | Coords region_result

text \<open>The loop over \<^verbatim>\<open>weapons_list\<close>: one read of the store per item.\<close>

fun lookup_loop ::
  "SQLiteFlow \<Rightarrow> database \<Rightarrow> pystr \<Rightarrow> target list \<Rightarrow> weapon list \<Rightarrow> weapon list \<Rightarrow>
     target list \<times> weapon list"
where
  "lookup_loop self_db db region_name targets weapons_for_ai [] = (targets, weapons_for_ai)"
| "lookup_loop self_db db region_name targets weapons_for_ai (weapon # rest) =
     (case get_city_coordinates self_db db (w_target_city weapon) region_name of
        Some db_coords \<Rightarrow>
          lookup_loop self_db db region_name
            (targets @ [\<lparr>t_city = w_target_city weapon,
                         t_weapon_type = Some (w_weapon_type weapon),
                         t_count = Some (of_int (w_count weapon)),
                         t_latitude = hit_latitude db_coords,
                         t_longitude = hit_longitude db_coords,
                         t_confidence = Some (hit_confidence db_coords),
                         t_source = Some (hit_source db_coords)\<rparr>])
            weapons_for_ai rest
      | None \<Rightarrow> lookup_loop self_db db region_name targets (weapons_for_ai @ [weapon]) rest)"

text \<open>
  The loop over the targets of the reply: each element is appended and written to the
  store; an element on which the loop raises ends it (\<open>None\<close>), the writes made so far stay.
\<close>

fun save_targets ::
  "SQLiteFlow \<Rightarrow> database \<Rightarrow> pystr \<Rightarrow> target list \<Rightarrow> reply_target list \<Rightarrow>
     target list option \<times> database"
where
  "save_targets self_db db region_name targets [] = (Some targets, db)"
| "save_targets self_db db region_name targets (Broken # rest) = (None, db)"
| "save_targets self_db db region_name targets (Good t # rest) =
     save_targets self_db
       (snd (save_city_coordinates self_db db (t_city t) region_name (t_latitude t)
               (t_longitude t) (case t_confidence t of None \<Rightarrow> 0.8 | Some c \<Rightarrow> c)
               (cps ''Gemini'')))
       region_name (targets @ [t]) rest"

text \<open>
  The method. The third component of the result lists the requests sent to the enrichment
  client, in order.
\<close>

definition get_region_coordinates_from_ai ::
  "SQLiteFlow \<Rightarrow> (enrich_request \<Rightarrow> api_reply) \<Rightarrow> database \<Rightarrow> pystr \<Rightarrow> weapon list \<Rightarrow>
     coords_data \<times> database \<times> enrich_request list"
where
  "get_region_coordinates_from_ai self_db enrich db region_name weapons_list =
     (let region_coords =
            map_option (\<lambda>h. (hit_latitude h, hit_longitude h))
              (get_region_coordinates db region_name);
          looked_up = lookup_loop self_db db region_name [] [] weapons_list;
          targets = fst looked_up;
          weapons_for_ai = snd looked_up
      in if weapons_for_ai \<noteq> [] \<or> region_coords = None then
           (let request = \<lparr>req_region = region_name, req_weapons = weapons_for_ai\<rparr> in
            case enrich request of
              Api_none \<Rightarrow> (Error (cps ''api_error''), db, [request])
            | Json_error \<Rightarrow> (Error (cps ''json_parse_error''), db, [request])
            | Parsed reply \<Rightarrow>
                (if region_coords = None \<and> ai_region_coordinates reply = Malformed
                 then (Error (cps ''processing_error''), db, [request])
                 else
                   (let db1 =
                          (case (region_coords, ai_region_coordinates reply) of
                             (None, Present reg_coords) \<Rightarrow>
                               snd (save_region_coordinates self_db db region_name
                                      (fst reg_coords) (snd reg_coords)
                                      (case ai_region_confidence reply of
                                         None \<Rightarrow> 0.8 | Some c \<Rightarrow> c)
                                      (cps ''Gemini''))
                           | _ \<Rightarrow> db);
                        region_coords1 =
                          (case (region_coords, ai_region_coordinates reply) of
                             (None, Present reg_coords) \<Rightarrow> Some reg_coords
                           | _ \<Rightarrow> region_coords)
                    in case ai_targets reply of
                         Malformed \<Rightarrow> (Error (cps ''processing_error''), db1, [request])
                       | Absent \<Rightarrow>
                           (Coords \<lparr>res_region = region_name, res_targets = targets,
                                    res_coordinates_rn = region_coords1\<rparr>, db1, [request])
                       | Present items \<Rightarrow>
                           (case save_targets self_db db1 region_name targets items of
                              (None, db2) \<Rightarrow> (Error (cps ''processing_error''), db2, [request])
                            | (Some targets2, db2) \<Rightarrow>
                                (Coords \<lparr>res_region = region_name, res_targets = targets2,
                                         res_coordinates_rn = region_coords1\<rparr>,
                                 db2, [request])))))
         else
           (Coords \<lparr>res_region = region_name, res_targets = targets,
                    res_coordinates_rn = region_coords\<rparr>, db, []))"

text \<open>The items of a region that the store does not resolve.\<close>

definition unresolved :: "SQLiteFlow \<Rightarrow> database \<Rightarrow> pystr \<Rightarrow> weapon list \<Rightarrow> weapon list" where
  "unresolved self_db db region_name weapons_list =
     filter (\<lambda>weapon. get_city_coordinates self_db db (w_target_city weapon) region_name = None)
       weapons_list"

subsection \<open>One region: _process_single_region\<close>

record region_target =
  rt_city :: pystr
  rt_weapon_type :: pystr
  rt_count :: real
  rt_latitude :: real
  rt_longitude :: real
  rt_confidence :: real
  rt_source :: pystr

record region_data =
  rd_region :: pystr
  rd_targets :: "region_target list"
  rd_total_processed :: nat
  rd_tokens_used :: nat
  rd_weapons_count :: real
  rd_coordinates_rn :: "(real \<times> real) option"

text \<open>
  The loop over the targets: a target without \<^verbatim>\<open>weapon_type\<close> or without a numeric
  \<^verbatim>\<open>count\<close> raises, which the method catches and answers with \<open>None\<close>.
\<close>

fun convert_targets ::
  "region_target list \<Rightarrow> real \<Rightarrow> target list \<Rightarrow> (region_target list \<times> real) option"
where
  "convert_targets region_targets region_weapons_count [] =
     Some (region_targets, region_weapons_count)"
| "convert_targets region_targets region_weapons_count (t # rest) =
     (case (t_weapon_type t, t_count t) of
        (Some weapon_type, Some count) \<Rightarrow>
          convert_targets
            (region_targets @
               [\<lparr>rt_city = t_city t, rt_weapon_type = weapon_type, rt_count = count,
                 rt_latitude = t_latitude t, rt_longitude = t_longitude t,
                 rt_confidence = (case t_confidence t of None \<Rightarrow> 0.8 | Some c \<Rightarrow> c),
                 rt_source = (case t_source t of None \<Rightarrow> cps ''AI_generated'' | Some s \<Rightarrow> s)\<rparr>])
            (region_weapons_count + count) rest
      | _ \<Rightarrow> None)"

definition process_single_region ::
  "SQLiteFlow \<Rightarrow> (enrich_request \<Rightarrow> api_reply) \<Rightarrow> database \<Rightarrow> pystr \<Rightarrow> weapon list \<Rightarrow>
     region_data option \<times> database \<times> enrich_request list"
where
  "process_single_region self_db enrich db region_name weapons_list =
     (case get_region_coordinates_from_ai self_db enrich db region_name weapons_list of
        (Error e, db', calls) \<Rightarrow> (None, db', calls)
      | (Coords coords_data, db', calls) \<Rightarrow>
          (case convert_targets [] 0 (res_targets coords_data) of
             None \<Rightarrow> (None, db', calls)
           | Some (region_targets, region_weapons_count) \<Rightarrow>
               (Some \<lparr>rd_region = region_name, rd_targets = region_targets,
                      rd_total_processed = length region_targets, rd_tokens_used = 100,
                      rd_weapons_count = region_weapons_count,
                      rd_coordinates_rn = res_coordinates_rn coords_data\<rparr>,
                db', calls)))"

subsection \<open>All regions: proccess_data with max_workers = 1\<close>

text \<open>
  The sequential branch of \<^verbatim>\<open>proccess_data\<close>. (For any other \<^verbatim>\<open>max_workers\<close> the method
  hands the same \<^verbatim>\<open>_process_single_region\<close> calls to a thread pool and runs the same
  aggregation over the results in the order of completion; the thread pool is outside this
  model.) \<^verbatim>\<open>total_weapons_used\<close> is the list of a set, in no fixed order: it is kept as the
  set.
\<close>

record accumulator =
  acc_regions_data :: "region_data list"
  acc_total_weapons_count :: real
  acc_all_weapon_types :: "pystr set"
  acc_total_cities :: nat


definition add_region :: "accumulator \<Rightarrow> region_data \<Rightarrow> accumulator" where
  "add_region acc region_data =
     \<lparr>acc_regions_data = acc_regions_data acc @ [region_data],
      acc_total_weapons_count = acc_total_weapons_count acc + rd_weapons_count region_data,
      acc_all_weapon_types = acc_all_weapon_types acc \<union> set (map rt_weapon_type (rd_targets region_data)),
      acc_total_cities = acc_total_cities acc + length (rd_targets region_data)\<rparr>"

fun regions_loop ::
  "SQLiteFlow \<Rightarrow> (enrich_request \<Rightarrow> api_reply) \<Rightarrow> (pystr \<times> weapon list) list \<Rightarrow>
     accumulator \<times> database \<times> enrich_request list \<Rightarrow> accumulator \<times> database \<times> enrich_request list"
where
  "regions_loop self_db enrich [] st = st"
| "regions_loop self_db enrich ((region_name, weapons_list) # rest) (acc, db, calls) =
     (case process_single_region self_db enrich db region_name weapons_list of
        (Some region_data, db', calls') \<Rightarrow>
          regions_loop self_db enrich rest (add_region acc region_data, db', calls @ calls')
      | (None, db', calls') \<Rightarrow>
          regions_loop self_db enrich rest (acc, db', calls @ calls'))"


text \<open>
  The store in which a region is resolved: the one the regions before it have left, whether
  they succeeded or failed.
\<close>

definition db_after ::
  "SQLiteFlow \<Rightarrow> (enrich_request \<Rightarrow> api_reply) \<Rightarrow> database \<Rightarrow> (pystr \<times> weapon list) list \<Rightarrow> database"
where
  "db_after self_db enrich db regions_weapons =
     foldl (\<lambda>db' (region_name, weapons_list).
              fst (snd (process_single_region self_db enrich db' region_name weapons_list)))
       db regions_weapons"



section \<open>Concrete inputs\<close>

text \<open>Stores used as concrete inputs.\<close>

definition db_kyiv :: database where
  "db_kyiv = \<lparr>cities_tbl = [\<lparr>c_id = 1, c_city_name = [0x41A, 0x438, 0x457, 0x432],
                            c_region_name = [0x41A, 0x438, 0x457, 0x432, 0x449, 0x438, 0x43D, 0x430],
                            c_latitude = 50, c_longitude = 30, c_confidence = 0.5,
                            c_source = cps ''manual''\<rparr>],
              regions_tbl = [\<lparr>r_id = 1, r_region_name = [0x41A, 0x438, 0x457, 0x432, 0x449, 0x438, 0x43D, 0x430],
                            r_latitude = 50.2, r_longitude = 30.3, r_confidence = 0.8,
                            r_source = cps ''Gemini''\<rparr>],
              cities_seq = 1, regions_seq = 1\<rparr>"

text \<open>The region of \<open>db_kyiv\<close> with its name in lower case.\<close>

definition db_kyiv_lower :: database where
  "db_kyiv_lower =
     \<lparr>cities_tbl = [],
      regions_tbl = [\<lparr>r_id = 1, r_region_name = [0x43A, 0x438, 0x457, 0x432, 0x449, 0x438, 0x43D, 0x430],
                       r_latitude = 50.2, r_longitude = 30.3, r_confidence = 0.8,
                       r_source = cps ''manual''\<rparr>],
      cities_seq = 0, regions_seq = 1\<rparr>"

definition db_empty :: database where
  "db_empty = \<lparr>cities_tbl = [], regions_tbl = [], cities_seq = 0, regions_seq = 0\<rparr>"

definition db_dup :: database where
  "db_dup = \<lparr>cities_tbl = [],
             regions_tbl = [\<lparr>r_id = 1, r_region_name = cps ''Kyiv'', r_latitude = 50.4,
                          r_longitude = 30.5, r_confidence = 0.8, r_source = cps ''manual''\<rparr>,
                        \<lparr>r_id = 2, r_region_name = cps ''kyiv'', r_latitude = 50.45,
                          r_longitude = 30.52, r_confidence = 0.9, r_source = cps ''Gemini''\<rparr>],
             cities_seq = 0, regions_seq = 2\<rparr>"

definition db_dup_upper :: database where
  "db_dup_upper = \<lparr>cities_tbl = [],
             regions_tbl = [\<lparr>r_id = 1, r_region_name = cps ''kyiv'', r_latitude = 50.4,
                          r_longitude = 30.5, r_confidence = 0.8, r_source = cps ''manual''\<rparr>,
                        \<lparr>r_id = 2, r_region_name = cps ''KYIV'', r_latitude = 50.45,
                          r_longitude = 30.52, r_confidence = 0.9, r_source = cps ''Gemini''\<rparr>],
             cities_seq = 0, regions_seq = 2\<rparr>"





definition bulletin_quiet :: pystr where
  "bulletin_quiet = [0x41E, 0x434, 0x435, 0x449, 0x438, 0x43D, 0x430, 0x3A, 0xA, 0x43F, 0x440, 0x438, 0x432, 0x456, 0x442]"

text \<open>Two items and a region used as concrete inputs.\<close>

definition weapon_kyiv :: weapon where
  "weapon_kyiv = \<lparr>w_weapon_type = [0x425, 0x31, 0x30, 0x31], w_count = 4,
                  w_target_city = [0x41A, 0x438, 0x457, 0x432]\<rparr>"

definition weapon_brovary :: weapon where
  "weapon_brovary = \<lparr>w_weapon_type = [0x411, 0x43F, 0x41B, 0x410], w_count = 3,
                     w_target_city = [0x411, 0x440, 0x43E, 0x432, 0x430, 0x440, 0x438]\<rparr>"

definition kyivshchyna :: pystr where
  "kyivshchyna = [0x41A, 0x438, 0x457, 0x432, 0x449, 0x438, 0x43D, 0x430]"











section \<open>Proofs\<close>

lemmas str_eval = py_lower_def py_upper_def py_strip_def py_title_def lower_full_def upper_full_def
  title_full_def tolower_cp_def toupper_cp_def iscased_cp_def isspace_cp_def cps_def

lemma cp_ranges:
  "c < 0x41 \<or> (0x41 \<le> c \<and> c \<le> 0x5A) \<or> (0x5A < c \<and> c < 0x61) \<or> (0x61 \<le> c \<and> c \<le> 0x7A) \<or>
   (0x7A < c \<and> c < 0x400) \<or> (0x400 \<le> c \<and> c \<le> 0x40F) \<or> (0x410 \<le> c \<and> c \<le> 0x42F) \<or>
   (0x430 \<le> c \<and> c \<le> 0x44F) \<or> (0x450 \<le> c \<and> c \<le> 0x45F) \<or> (0x45F < c \<and> c < 0x490) \<or>
   c = 0x490 \<or> c = 0x491 \<or> 0x491 < (c::nat)"
  by linarith

lemma tab_title: "tabulated c \<Longrightarrow> title_full c = [toupper_cp c]"
  by (auto simp: tabulated_def title_full_def)

lemma tab_cased_up: "tabulated c \<Longrightarrow> iscased_cp (toupper_cp c) = iscased_cp c"
  using cp_ranges [of c] by (elim disjE) (auto simp: tabulated_def iscased_cp_def toupper_cp_def)
lemma tab_cased_lo: "tabulated c \<Longrightarrow> iscased_cp (tolower_cp c) = iscased_cp c"
  using cp_ranges [of c] by (elim disjE) (auto simp: tabulated_def iscased_cp_def tolower_cp_def)
lemma tab_up: "tabulated c \<Longrightarrow> tabulated (toupper_cp c)"
  using cp_ranges [of c] by (elim disjE) (auto simp: tabulated_def toupper_cp_def)
lemma tab_lo: "tabulated c \<Longrightarrow> tabulated (tolower_cp c)"
  using cp_ranges [of c] by (elim disjE) (auto simp: tabulated_def tolower_cp_def)
lemma up_up: "toupper_cp (toupper_cp c) = toupper_cp c"
  using cp_ranges [of c] by (elim disjE) (auto simp: toupper_cp_def)
lemma lo_lo: "tolower_cp (tolower_cp c) = tolower_cp c"
  using cp_ranges [of c] by (elim disjE) (auto simp: tolower_cp_def)
lemma lo_up: "tabulated c \<Longrightarrow> tolower_cp (toupper_cp c) = tolower_cp c"
  using cp_ranges [of c] by (elim disjE) (auto simp: tabulated_def tolower_cp_def toupper_cp_def)
lemma sp_up: "isspace_cp (toupper_cp c) = isspace_cp c"
  using cp_ranges [of c] by (elim disjE) (auto simp: isspace_cp_def toupper_cp_def)
lemma sp_lo: "isspace_cp (tolower_cp c) = isspace_cp c"
  using cp_ranges [of c] by (elim disjE) (auto simp: isspace_cp_def tolower_cp_def)

lemma do_title_Cons_tab:
  "tabulated c \<Longrightarrow> do_title p (c # cs) = title_cp p c # do_title (iscased_cp c) cs"
  by (simp add: title_cp_def tab_title lower_full_def)

lemma title_cp_facts:
  assumes "tabulated c"
  shows "tabulated (title_cp p c)" "iscased_cp (title_cp p c) = iscased_cp c"
    "title_cp p (title_cp p c) = title_cp p c" "tolower_cp (title_cp p c) = tolower_cp c"
    "isspace_cp (title_cp p c) = isspace_cp c"
  using assms by (simp_all add: title_cp_def tab_up tab_lo tab_cased_up tab_cased_lo up_up lo_lo lo_up sp_up sp_lo)

lemma do_title_tabulated:
  "list_all tabulated s \<Longrightarrow> list_all tabulated (do_title p s)"
  by (induction s arbitrary: p) (simp_all add: do_title_Cons_tab title_cp_facts del: do_title.simps(2))

lemma do_title_idem:
  "list_all tabulated s \<Longrightarrow> do_title p (do_title p s) = do_title p s"
  by (induction s arbitrary: p) (simp_all add: do_title_Cons_tab title_cp_facts del: do_title.simps(2))

lemma py_lower_do_title:
  "list_all tabulated s \<Longrightarrow> py_lower (do_title p s) = py_lower s"
  by (induction s arbitrary: p) (simp_all add: do_title_Cons_tab title_cp_facts py_lower_def lower_full_def del: do_title.simps(2))

lemma do_title_Nil_iff: "list_all tabulated s \<Longrightarrow> do_title p s = [] \<longleftrightarrow> s = []"
  by (cases s) (simp_all add: do_title_Cons_tab del: do_title.simps(2))

lemma do_title_hd:
  "list_all tabulated s \<Longrightarrow> s \<noteq> [] \<Longrightarrow> isspace_cp (hd (do_title p s)) = isspace_cp (hd s)"
  by (cases s) (simp_all add: do_title_Cons_tab title_cp_facts del: do_title.simps(2))

lemma do_title_last:
  "list_all tabulated s \<Longrightarrow> s \<noteq> [] \<Longrightarrow> isspace_cp (last (do_title p s)) = isspace_cp (last s)"
proof (induction s arbitrary: p)
  case Nil
  then show ?case by simp
next
  case (Cons c cs)
  then show ?case
    by (cases cs) (simp_all add: do_title_Cons_tab title_cp_facts del: do_title.simps(2))
qed

lemma dropWhile_rev_last: "xs \<noteq> [] \<Longrightarrow> \<not> P (last xs) \<Longrightarrow> dropWhile P (rev xs) = rev xs"
  by (cases xs rule: rev_cases) simp_all

lemma py_strip_trimmed: "trimmed s \<Longrightarrow> py_strip s = s"
proof (cases s)
  case Nil
  then show ?thesis by (simp add: py_strip_def)
next
  case (Cons a list)
  assume "trimmed s"
  with Cons have a: "\<not> isspace_cp a" and l: "\<not> isspace_cp (last s)" and ne: "s \<noteq> []"
    by (simp_all add: trimmed_def)
  have "dropWhile isspace_cp s = s" using Cons a by simp
  then show ?thesis using dropWhile_rev_last [of s isspace_cp, OF ne l] by (simp add: py_strip_def)
qed

lemma trimmed_py_strip: "trimmed (py_strip s)"
proof -
  let ?ys = "dropWhile isspace_cp s"
  let ?zs = "dropWhile isspace_cp (rev ?ys)"
  show ?thesis
  proof (cases "?zs = []")
    case True
    then show ?thesis by (simp add: trimmed_def py_strip_def)
  next
    case False
    have ys: "?ys \<noteq> []"
    proof
      assume "?ys = []"
      then have "?zs = []" by (simp only: rev.simps dropWhile.simps)
      with False show False by (rule notE)
    qed
    have h: "\<not> isspace_cp (hd ?zs)" using False by (rule hd_dropWhile)
    obtain us where us: "rev ?ys = us @ ?zs"
      by (metis takeWhile_dropWhile_id)
    have "last ?zs = last (rev ?ys)" using us False by (metis last_appendR)
    also have "\<dots> = hd ?ys" using ys by (simp add: last_rev)
    finally have l: "\<not> isspace_cp (last ?zs)" using ys hd_dropWhile by metis
    show ?thesis using False h l by (simp add: trimmed_def py_strip_def hd_rev last_rev)
  qed
qed

lemma set_py_strip: "set (py_strip s) \<subseteq> set s"
  by (auto simp: py_strip_def dest!: set_dropWhileD)

lemma trimmed_do_title:
  "list_all tabulated s \<Longrightarrow> trimmed s \<Longrightarrow> trimmed (do_title p s)"
  by (auto simp: trimmed_def do_title_Nil_iff do_title_hd do_title_last)

lemma corrected_fixed:
  "map_of corrections_table k = Some v \<Longrightarrow>
     normalize_region_name flow (py_title v) = Inr (py_title v)"
  by (auto simp add: normalize_region_name_def flow_def corrections_table_def py_lower_def py_strip_def py_title_def
     lower_full_def title_full_def tolower_cp_def toupper_cp_def iscased_cp_def isspace_cp_def split: if_splits)


lemma normalize_flow_total: "\<exists>n. normalize_region_name flow r = Inr n"
  by (simp add: normalize_region_name_def flow_def split: option.split)

lemma facts_cols:
  assumes "map city_fact xs = map city_fact ys"
  shows "map c_city_name xs = map c_city_name ys" "map c_region_name xs = map c_region_name ys"
    "map c_source xs = map c_source ys" "length xs = length ys"
proof -
  have "map (fst \<circ> city_fact) xs = map (fst \<circ> city_fact) ys"
    "map (fst \<circ> snd \<circ> city_fact) xs = map (fst \<circ> snd \<circ> city_fact) ys"
    "map (snd \<circ> snd \<circ> snd \<circ> snd \<circ> snd \<circ> city_fact) xs = map (snd \<circ> snd \<circ> snd \<circ> snd \<circ> snd \<circ> city_fact) ys"
    using assms by (simp_all only: map_map [symmetric])
  then show "map c_city_name xs = map c_city_name ys" "map c_region_name xs = map c_region_name ys"
    "map c_source xs = map c_source ys"
    by (simp_all add: city_fact_def comp_def)
  show "length xs = length ys" using arg_cong [OF assms, of length] by simp
qed

lemma count_source: "length (filter (\<lambda>row. c_source row = src) xs) = length (filter (\<lambda>s. s = src) (map c_source xs))"
  by (induction xs) simp_all

lemma stats_facts:
  assumes "map city_fact (cities_tbl db) = map city_fact (cities_tbl db')" "regions_tbl db = regions_tbl db'"
  shows "get_database_stats db = get_database_stats db'"
proof -
  note cols = facts_cols [OF assms(1)]
  have c: "length (filter (\<lambda>row. c_source row = src) (cities_tbl db)) =
           length (filter (\<lambda>row. c_source row = src) (cities_tbl db'))" for src
    by (simp only: count_source cols(3))
  have s: "set (map c_source (cities_tbl db)) = set (map c_source (cities_tbl db'))"
    by (simp only: cols(3))
  show ?thesis
    unfolding get_database_stats_def by (simp only: c s cols(2) cols(4) assms(2))
qed

lemma find_city_facts:
  "map_option hit_of_fact (find (\<lambda>f. fst f = c \<and> fst (snd f) = n) (map city_fact xs)) =
   (case find (\<lambda>row. c_city_name row = c \<and> c_region_name row = n) xs of None \<Rightarrow> None
    | Some row \<Rightarrow> Some \<lparr>hit_latitude = c_latitude row, hit_longitude = c_longitude row,
                     hit_confidence = c_confidence row,
                     hit_source = database_source (c_source row)\<rparr>)"
  by (induction xs) (simp_all add: city_fact_def hit_of_fact_def)

lemma get_city_facts:
  assumes "map city_fact (cities_tbl db) = map city_fact (cities_tbl db')"
  shows "get_city_coordinates self db c r = get_city_coordinates self db' c r"
  unfolding get_city_coordinates_def find_city_facts [symmetric] assms ..

lemma save_city_twice:
  assumes v: "validate_ukraine_coordinates la lo" and n: "normalize_region_name self r = Inr n"
  shows "fst (save_city_coordinates self db c r la lo co so) = True"
    "map city_fact (cities_tbl (snd (save_city_coordinates self (snd (save_city_coordinates self db c r la lo co so)) c r la lo co so))) =
     map city_fact (cities_tbl (snd (save_city_coordinates self db c r la lo co so)))"
    "regions_tbl (snd (save_city_coordinates self db c r la lo co so)) = regions_tbl db"
  using v n by (simp_all add: save_city_coordinates_def Let_def city_fact_def)

lemma duplicate_groups_db_dup: "duplicate_groups (regions_tbl db_dup) = [(cps ''kyiv'', 2, [1, 2], cps ''Kyiv,kyiv'')]"
  by (simp add: duplicate_groups_def db_dup_def sql_lower_def cps_def)

lemma duplicate_groups_db_dup_upper: "duplicate_groups (regions_tbl db_dup_upper) = [(cps ''kyiv'', 2, [2, 1], cps ''KYIV,kyiv'')]"
  by (simp add: duplicate_groups_def db_dup_upper_def sql_lower_def cps_def)

text \<open>
  On a store whose later duplicate is spelled so that its normalized name is held by no
  other row, the method, called on the constructed object, does reconcile the group.
\<close>

lemma clean_region_duplicates_upper:
  "clean_region_duplicates flow db_dup_upper =
     (1, db_dup_upper\<lparr>regions_tbl := [\<lparr>r_id = 2, r_region_name = cps ''Kyiv'', r_latitude = 50.45,
                          r_longitude = 30.52, r_confidence = 0.9, r_source = cps ''Gemini''\<rparr>]\<rparr>)"
  by (simp add: clean_region_duplicates_def duplicate_groups_db_dup_upper clean_group_def split_on_def
      normalize_region_name_def flow_def corrections_table_def update_region_name_def str_eval)
     (simp add: db_dup_upper_def cps_def)





lemma sets_group_word: "sets_group n (word m w rest) = sets_group n rest"
  by (induction w) (simp_all add: word_def)


lemma standard_sets_2_3: "sets_group 2 standard_pattern" "sets_group 3 standard_pattern"
  by (simp_all add: standard_pattern_def sets_group_word)

lemmas re_eval = group_kr_pattern_def standard_pattern_def leading_count_def word_def lit_def
  lit_ignorecase_def casefix_def nonspace_cp_def dot_cp_def isdigit_cp_def isspace_cp_def tolower_cp_def


lemma map_fst_dict_append: "map fst (dict_append regions k w) = map fst regions"
  by (induction regions) (auto simp: dict_append_def)



lemma keys_dict_append: "fst ` set (dict_append regions k w) = fst ` set regions"
  using arg_cong [OF map_fst_dict_append, of set regions k w] by simp

lemma process_line_shape:
  "fst (process_line (regions, cur) l) = regions \<or>
   (endswith_colon (py_strip l) \<and>
    fst (process_line (regions, cur) l) = regions @ [(remove_colons (py_strip l), [])]) \<or>
   ((re_search group_kr_pattern (py_strip l) \<noteq> None \<or>
     re_search standard_pattern (py_strip l) \<noteq> None) \<and>
    (\<exists>k w. fst (process_line (regions, cur) l) = dict_append regions k w))"
proof (cases "py_strip l = [] \<or> endswith_colon (py_strip l) \<or> cur = None \<or> cur = Some []")
  case True
  then show ?thesis
    by (auto simp: process_line_def Let_def split: option.splits)
next
  case False
  then obtain region where c: "cur = Some region" "region \<noteq> []" by auto
  show ?thesis
  proof (cases "re_search group_kr_pattern (py_strip l)")
    case None
    show ?thesis
    proof (cases "re_search standard_pattern (py_strip l)")
      case None
      with \<open>re_search group_kr_pattern (py_strip l) = None\<close> False c show ?thesis
        by (simp add: process_line_def Let_def)
    next
      case (Some g)
      with None False c show ?thesis
        by (simp add: process_line_def Let_def) blast
    qed
  next
    case (Some g)
    with False c show ?thesis
      by (simp add: process_line_def Let_def) blast
  qed
qed

lemma process_line_keys:
  "set (map fst (fst st)) \<subseteq> set (map fst (fst (process_line st l)))"
proof (cases st)
  case (Pair regions cur)
  have "fst (process_line (regions, cur) l) = regions \<or>
        fst (process_line (regions, cur) l) = regions @ [(remove_colons (py_strip l), [])] \<or>
        (\<exists>k w. fst (process_line (regions, cur) l) = dict_append regions k w)"
    using process_line_shape [of regions cur l] by blast
  then have "fst ` set regions \<subseteq> fst ` set (fst (process_line (regions, cur) l))"
  proof (elim disjE exE)
    assume "fst (process_line (regions, cur) l) = regions"
    then show ?thesis by simp
  next
    assume "fst (process_line (regions, cur) l) = regions @ [(remove_colons (py_strip l), [])]"
    then show ?thesis by auto
  next
    fix k w
    assume "fst (process_line (regions, cur) l) = dict_append regions k w"
    then show ?thesis by (simp add: keys_dict_append)
  qed
  then show ?thesis unfolding Pair by simp
qed

lemma foldl_process_line_keys:
  "set (map fst (fst st)) \<subseteq> set (map fst (fst (foldl process_line st ls)))"
proof (induction ls arbitrary: st)
  case Nil
  show ?case by simp
next
  case (Cons l ls)
  show ?case using process_line_keys [of st l] Cons [of "process_line st l"] by auto
qed

lemma process_line_header:
  "endswith_colon (py_strip l) \<Longrightarrow> remove_colons (py_strip l) \<in> set (map fst (fst (process_line st l)))"
  by (cases st) (auto simp: process_line_def Let_def endswith_colon_def)

lemma foldl_process_line_header:
  "l \<in> set ls \<Longrightarrow> endswith_colon (py_strip l) \<Longrightarrow>
     remove_colons (py_strip l) \<in> set (map fst (fst (foldl process_line st ls)))"
proof (induction ls arbitrary: st)
  case Nil
  then show ?case by simp
next
  case (Cons a ls)
  show ?case
  proof (cases "l = a")
    case True
    then show ?thesis
      using process_line_header [OF Cons.prems(2), of st] foldl_process_line_keys [of "process_line st a" ls]
      by auto
  next
    case False
    then show ?thesis using Cons by auto
  qed
qed

lemma process_line_no_events:
  assumes "no_events (fst st)" "re_search group_kr_pattern (py_strip l) = None"
    "re_search standard_pattern (py_strip l) = None"
  shows "no_events (fst (process_line st l))"
proof (cases st)
  case (Pair regions cur)
  show ?thesis
    using process_line_shape [of regions cur l] assms unfolding Pair
    by (auto simp: no_events_def)
qed

lemma foldl_process_line_no_events:
  "no_events (fst st) \<Longrightarrow>
   \<forall>l \<in> set ls. re_search group_kr_pattern (py_strip l) = None \<and>
                 re_search standard_pattern (py_strip l) = None \<Longrightarrow>
   no_events (fst (foldl process_line st ls))"
  by (induction ls arbitrary: st) (simp_all add: process_line_no_events)

lemmas strip_eval = py_strip_def isspace_cp_def










lemma last_attempt_iff: "int n < max_retries self - 1 \<longleftrightarrow> Suc n < nat (max_retries self)"
  by linarith

lemma retry_loop_quota_step:
  assumes "service n = Raises msg" "is_quota_error msg" "int n < max_retries self - 1"
  shows "retry_loop self service rnd (n # rest) =
           (fst (retry_loop self service rnd rest),
            Call n # Sleep (10 * 2 ^ n + uniform 1 5 (rnd n)) # snd (retry_loop self service rnd rest))"
  using assms by (simp add: Let_def split: prod.split)

lemma retry_loop_quota_last:
  assumes "service n = Raises msg" "is_quota_error msg" "\<not> int n < max_retries self - 1"
  shows "retry_loop self service rnd (n # rest) = (None, [Call n])"
  using assms by simp

lemma retry_loop_all_quota:
  assumes "\<forall>n. n < m \<longrightarrow> (\<exists>msg. service n = Raises msg \<and> is_quota_error msg)"
    and "m = nat (max_retries self)"
  shows "k \<le> m \<Longrightarrow> retry_loop self service rnd [k..<m] = (None, quota_trace m rnd [k..<m])"
proof (induction "m - k" arbitrary: k)
  case 0
  then show ?case by (simp add: quota_trace_def)
next
  case (Suc d)
  then have k: "k < m" by simp
  then obtain msg where msg: "service k = Raises msg" "is_quota_error msg"
    using assms(1) by blast
  have up: "[k..<m] = k # [Suc k..<m]" using k by (simp add: upt_conv_Cons)
  show ?case
  proof (cases "Suc k < m")
    case True
    then have "int k < max_retries self - 1" using assms(2) by linarith
    moreover have "retry_loop self service rnd [Suc k..<m] = (None, quota_trace m rnd [Suc k..<m])"
      using Suc.hyps(1) [of "Suc k"] Suc.hyps(2) k by simp
    ultimately show ?thesis
      unfolding up using retry_loop_quota_step [of service k msg self rnd "[Suc k..<m]", OF msg] True
      by (simp add: quota_trace_def)
  next
    case False
    then have "\<not> int k < max_retries self - 1" using assms(2) by linarith
    moreover have "[Suc k..<m] = []" using False by simp
    ultimately show ?thesis
      unfolding up using retry_loop_quota_last [of service k msg self rnd "[Suc k..<m]", OF msg] False
      by (simp add: quota_trace_def)
  qed
qed

lemma retry_loop_no_text:
  "\<forall>n \<in> set ns. \<forall>text. service n = Response text \<longrightarrow> text = [] \<Longrightarrow>
   fst (retry_loop self service rnd ns) = None"
  by (induction ns) (auto simp: Let_def split: attempt_outcome.splits prod.splits)

lemma uniform_bounds: "0 \<le> u \<Longrightarrow> u < 1 \<Longrightarrow> a \<le> b \<Longrightarrow> a \<le> uniform a b u \<and> uniform a b u \<le> b"
proof -
  assume u: "0 \<le> u" "u < 1" and ab: "a \<le> b"
  have "0 \<le> (b - a) * u" using u ab by simp
  moreover have "(b - a) * u \<le> (b - a) * 1" using u ab by (intro mult_left_mono) simp_all
  ultimately show ?thesis by (simp add: uniform_def)
qed

lemma upt_3: "[0..<3] = [0, 1, 2]"
  by (simp add: upt_rec)

lemmas msg_eval = is_quota_error_def is_rate_limit_error_def quota_message_def rate_limit_message_def
  other_message_def cps_def py_lower_def lower_full_def tolower_cp_def

lemma messages:
  "is_quota_error quota_message"
  "\<not> is_quota_error rate_limit_message" "is_rate_limit_error rate_limit_message"
  "\<not> is_quota_error other_message" "\<not> is_rate_limit_error other_message"
  by (simp_all add: msg_eval)

lemma lookup_loop_snd:
  "snd (lookup_loop self_db db region_name targets weapons_for_ai weapons_list) =
     weapons_for_ai @ unresolved self_db db region_name weapons_list"
  by (induction weapons_list arbitrary: targets weapons_for_ai)
     (simp_all add: unresolved_def split: option.splits)

lemma calls_of_get_region_coordinates_from_ai:
  "snd (snd (get_region_coordinates_from_ai self_db enrich db region_name weapons_list)) =
     (if unresolved self_db db region_name weapons_list \<noteq> [] \<or>
         get_region_coordinates db region_name = None
      then [\<lparr>req_region = region_name,
             req_weapons = unresolved self_db db region_name weapons_list\<rparr>]
      else [])"
  by (simp add: get_region_coordinates_from_ai_def Let_def lookup_loop_snd
      split: api_reply.splits json_field.splits prod.splits option.splits)

lemma kyiv_hit:
  "get_city_coordinates flow db_kyiv (w_target_city weapon_kyiv) kyivshchyna \<noteq> None"
  by (simp add: get_city_coordinates_def normalize_region_name_def flow_def corrections_table_def
      db_kyiv_def weapon_kyiv_def kyivshchyna_def str_eval)

lemma brovary_miss:
  "get_city_coordinates flow db_kyiv (w_target_city weapon_brovary) kyivshchyna = None"
  by (simp add: get_city_coordinates_def normalize_region_name_def flow_def corrections_table_def
      db_kyiv_def weapon_brovary_def kyivshchyna_def str_eval)

lemma kyivshchyna_known: "get_region_coordinates db_kyiv kyivshchyna \<noteq> None"
  by (simp add: get_region_coordinates_def db_kyiv_def kyivshchyna_def sql_lower_def py_strip_def isspace_cp_def)




lemma regions_loop_db:
  "fst (snd (regions_loop self_db enrich rs (acc, db, calls))) = db_after self_db enrich db rs"
proof (induction rs arbitrary: acc db calls)
  case Nil
  show ?case by (simp add: db_after_def)
next
  case (Cons a rs)
  obtain region_name weapons_list where a: "a = (region_name, weapons_list)" by (cases a)
  obtain r db' calls' where p: "process_single_region self_db enrich db region_name weapons_list = (r, db', calls')"
    by (cases "process_single_region self_db enrich db region_name weapons_list")
  show ?case unfolding a using p Cons [of _ db'] by (cases r) (simp_all add: db_after_def)
qed




















lemma save_region_twice:
  assumes v: "validate_ukraine_coordinates la lo" and n: "normalize_region_name self r = Inr n"
  shows "fst (save_region_coordinates self db r la lo co so) = True"
    "save_region_coordinates self (snd (save_region_coordinates self db r la lo co so)) r la lo co so =
       (True, snd (save_region_coordinates self db r la lo co so))"
proof -
  let ?P = "\<lambda>row. sql_lower (r_region_name row) = sql_lower n"
  show "fst (save_region_coordinates self db r la lo co so) = True"
    using v n by (simp add: save_region_coordinates_def Let_def split: option.splits)
  have ex: "find ?P (regions_tbl (snd (save_region_coordinates self db r la lo co so))) \<noteq> None"
  proof (cases "find ?P (regions_tbl db)")
    case None
    define new_row where "new_row = \<lparr>r_id = next_id (map r_id (regions_tbl db)) (regions_seq db),
                          r_region_name = n, r_latitude = la, r_longitude = lo,
                          r_confidence = co, r_source = so\<rparr>"
    have "regions_tbl (snd (save_region_coordinates self db r la lo co so)) = regions_tbl db @ [new_row]"
      using v n None by (simp add: save_region_coordinates_def Let_def new_row_def)
    then have "new_row \<in> set (regions_tbl (snd (save_region_coordinates self db r la lo co so)))"
      by simp
    moreover have "?P new_row" by (simp add: new_row_def)
    ultimately show ?thesis unfolding find_None_iff by blast
  next
    case (Some row)
    then show ?thesis
      using v n by (simp add: save_region_coordinates_def)
  qed
  then obtain row where "find ?P (regions_tbl (snd (save_region_coordinates self db r la lo co so))) = Some row"
    by auto
  then show "save_region_coordinates self (snd (save_region_coordinates self db r la lo co so)) r la lo co so =
       (True, snd (save_region_coordinates self db r la lo co so))"
    using v n by (simp add: save_region_coordinates_def [of self "snd (save_region_coordinates self db r la lo co so)"])
qed

lemma find_last_only:
  "\<forall>y \<in> set ys. \<not> P y \<Longrightarrow> P x \<Longrightarrow> find P (ys @ [x]) = Some x"
  by (induction ys) simp_all

lemma save_city_wins:
  assumes v: "validate_ukraine_coordinates la lo" and n: "normalize_region_name self r = Inr n"
  shows "get_city_coordinates self (snd (save_city_coordinates self db c r la lo co so)) c r =
           Some \<lparr>hit_latitude = la, hit_longitude = lo, hit_confidence = co,
                 hit_source = database_source so\<rparr>"
proof -
  let ?P = "\<lambda>row. c_city_name row = c \<and> c_region_name row = n"
  let ?new = "\<lparr>c_id = next_id (map c_id (cities_tbl db)) (cities_seq db), c_city_name = c,
               c_region_name = n, c_latitude = la, c_longitude = lo, c_confidence = co,
               c_source = so\<rparr>"
  have "cities_tbl (snd (save_city_coordinates self db c r la lo co so)) =
          filter (\<lambda>row. \<not> ?P row) (cities_tbl db) @ [?new]"
    using v n by (simp add: save_city_coordinates_def Let_def)
  moreover have "find ?P (filter (\<lambda>row. \<not> ?P row) (cities_tbl db) @ [?new]) = Some ?new"
    by (rule find_last_only) simp_all
  ultimately show ?thesis using n by (simp add: get_city_coordinates_def)
qed

section \<open>The claims\<close>

text \<open>
  C2. The claim: a write of a region for whose case-insensitive name a fact already exists
  is a no-op on the store that returns success. The code makes the comparison with
  \<^verbatim>\<open>LOWER(region_name) = LOWER(?)\<close>, and SQLite's \<^verbatim>\<open>LOWER\<close> folds the letters A to Z only.
  On the store whose table \<^verbatim>\<open>regions\<close> holds the one row (1, U+043A U+0438 U+0457 U+0432
  U+0449 U+0438 U+043D U+0430), a write of the same name with a capital first letter
  (U+041A) finds no row, although the two names are equal up to case: it returns \<open>True\<close>
  and inserts a second row for the region. With Basic Latin names the comparison does what
  it is meant to do: on the store with the rows (1, Kyiv) and (2, kyiv) the write of KYIV
  returns \<open>True\<close> and leaves the store as it is.
\<close>

theorem save_region_coordinates_misses_cyrillic_case:
  "map r_region_name (regions_tbl db_kyiv_lower) =
     [[0x43A, 0x438, 0x457, 0x432, 0x449, 0x438, 0x43D, 0x430]] \<and>
   py_lower [0x41A, 0x438, 0x457, 0x432, 0x449, 0x438, 0x43D, 0x430] =
     py_lower [0x43A, 0x438, 0x457, 0x432, 0x449, 0x438, 0x43D, 0x430] \<and>
   validate_ukraine_coordinates 50.45 30.52 \<and>
   save_region_coordinates flow db_kyiv_lower
     [0x41A, 0x438, 0x457, 0x432, 0x449, 0x438, 0x43D, 0x430] 50.45 30.52 (0.9) (cps ''Gemini'') =
     (True,
      \<lparr>cities_tbl = [],
       regions_tbl =
         [\<lparr>r_id = 1, r_region_name = [0x43A, 0x438, 0x457, 0x432, 0x449, 0x438, 0x43D, 0x430],
           r_latitude = 50.2, r_longitude = 30.3, r_confidence = 0.8, r_source = cps ''manual''\<rparr>,
          \<lparr>r_id = 2, r_region_name = [0x41A, 0x438, 0x457, 0x432, 0x449, 0x438, 0x43D, 0x430],
           r_latitude = 50.45, r_longitude = 30.52, r_confidence = 0.9, r_source = cps ''Gemini''\<rparr>],
       cities_seq = 0, regions_seq = 2\<rparr>) \<and>
   save_region_coordinates flow db_dup (cps ''KYIV'') 50.45 30.52 (0.9) (cps ''Gemini'') = (True, db_dup)"
  by (simp add: save_region_coordinates_def validate_ukraine_coordinates_def normalize_region_name_def
      flow_def corrections_table_def db_kyiv_lower_def sql_lower_def next_id_def str_eval)
     (simp add: db_dup_def cps_def)

text \<open>
  The rest of what the specification says of the two writes holds. A valid write of a
  locality wins on its key: the read of that key returns the values written, whatever the
  store held. Writing a locality twice with the same valid arguments leaves the store in the
  same observable state as writing it once: both writes succeed, the rows of \<^verbatim>\<open>cities\<close>
  carry the same values (only the identifier of the written row is renewed by
  \<^verbatim>\<open>INSERT OR REPLACE\<close>), \<^verbatim>\<open>regions\<close> is untouched, and every read of the class
  (\<^verbatim>\<open>get_city_coordinates\<close>, \<^verbatim>\<open>get_region_coordinates\<close>, \<^verbatim>\<open>get_database_stats\<close>) returns the
  same. Writing a region twice with the same valid arguments succeeds both times and the
  second write leaves the store exactly as the first left it.
\<close>

lemma save_twice_same_state:
  assumes valid: "validate_ukraine_coordinates latitude longitude"
  shows "let db1 = snd (save_city_coordinates flow db city_name region_name latitude longitude confidence source);
             db2 = snd (save_city_coordinates flow db1 city_name region_name latitude longitude confidence source)
         in fst (save_city_coordinates flow db city_name region_name latitude longitude confidence source) \<and>
            fst (save_city_coordinates flow db1 city_name region_name latitude longitude confidence source) \<and>
            map city_fact (cities_tbl db2) = map city_fact (cities_tbl db1) \<and>
            regions_tbl db2 = regions_tbl db1 \<and>
            get_city_coordinates flow db1 city_name region_name =
              Some \<lparr>hit_latitude = latitude, hit_longitude = longitude,
                    hit_confidence = confidence, hit_source = database_source source\<rparr> \<and>
            (\<forall>c r. get_city_coordinates flow db2 c r = get_city_coordinates flow db1 c r) \<and>
            (\<forall>r. get_region_coordinates db2 r = get_region_coordinates db1 r) \<and>
            get_database_stats db2 = get_database_stats db1 \<and>
            fst (save_region_coordinates flow db region_name latitude longitude confidence source) \<and>
            save_region_coordinates flow
              (snd (save_region_coordinates flow db region_name latitude longitude confidence source))
              region_name latitude longitude confidence source =
              (True, snd (save_region_coordinates flow db region_name latitude longitude confidence source))"
proof -
  define db1 where "db1 = snd (save_city_coordinates flow db city_name region_name latitude longitude confidence source)"
  define db2 where "db2 = snd (save_city_coordinates flow db1 city_name region_name latitude longitude confidence source)"
  obtain n where n: "normalize_region_name flow region_name = Inr n"
    using normalize_flow_total by blast
  note tw = save_city_twice [OF valid n]
  have f: "map city_fact (cities_tbl db2) = map city_fact (cities_tbl db1)"
    unfolding db2_def db1_def by (rule tw(2))
  have r: "regions_tbl db2 = regions_tbl db1"
    unfolding db2_def by (rule tw(3))
  have g: "get_region_coordinates db2 q = get_region_coordinates db1 q" for q
    unfolding get_region_coordinates_def by (simp only: r)
  have r1: "fst (save_city_coordinates flow db city_name region_name latitude longitude confidence source)"
    using tw(1) by simp
  have r2: "fst (save_city_coordinates flow db1 city_name region_name latitude longitude confidence source)"
    using save_city_twice(1) [OF valid n] by simp
  have w: "get_city_coordinates flow db1 city_name region_name =
              Some \<lparr>hit_latitude = latitude, hit_longitude = longitude,
                    hit_confidence = confidence, hit_source = database_source source\<rparr>"
    unfolding db1_def by (rule save_city_wins [OF valid n])
  have rr1: "fst (save_region_coordinates flow db region_name latitude longitude confidence source)"
    using save_region_twice(1) [OF valid n] by simp
  have rr2: "save_region_coordinates flow
              (snd (save_region_coordinates flow db region_name latitude longitude confidence source))
              region_name latitude longitude confidence source =
              (True, snd (save_region_coordinates flow db region_name latitude longitude confidence source))"
    by (rule save_region_twice(2) [OF valid n])
  have "fst (save_city_coordinates flow db city_name region_name latitude longitude confidence source) \<and>
            fst (save_city_coordinates flow db1 city_name region_name latitude longitude confidence source) \<and>
            map city_fact (cities_tbl db2) = map city_fact (cities_tbl db1) \<and>
            regions_tbl db2 = regions_tbl db1 \<and>
            get_city_coordinates flow db1 city_name region_name =
              Some \<lparr>hit_latitude = latitude, hit_longitude = longitude,
                    hit_confidence = confidence, hit_source = database_source source\<rparr> \<and>
            (\<forall>c r. get_city_coordinates flow db2 c r = get_city_coordinates flow db1 c r) \<and>
            (\<forall>r. get_region_coordinates db2 r = get_region_coordinates db1 r) \<and>
            get_database_stats db2 = get_database_stats db1 \<and>
            fst (save_region_coordinates flow db region_name latitude longitude confidence source) \<and>
            save_region_coordinates flow
              (snd (save_region_coordinates flow db region_name latitude longitude confidence source))
              region_name latitude longitude confidence source =
              (True, snd (save_region_coordinates flow db region_name latitude longitude confidence source))"
    using r1 r2 f r w get_city_facts [OF f] g stats_facts [OF f r] rr1 rr2 by blast
  then show ?thesis unfolding db2_def db1_def Let_def .
qed

text \<open>
  C3. For every latitude/longitude pair outside the box 44.0 to 52.5 by 22.0 to 40.5, both
  \<^verbatim>\<open>save_city_coordinates\<close> and \<^verbatim>\<open>save_region_coordinates\<close> return \<open>False\<close> and leave the
  store unchanged.
\<close>

theorem bounding_box_rejection:
  assumes "\<not> (44.0 \<le> latitude \<and> latitude \<le> 52.5 \<and> 22.0 \<le> longitude \<and> longitude \<le> 40.5)"
  shows "save_city_coordinates self db city_name region_name latitude longitude confidence source = (False, db) \<and>
         save_region_coordinates self db region_name latitude longitude confidence source = (False, db)"
  using assms by (auto simp: save_city_coordinates_def save_region_coordinates_def validate_ukraine_coordinates_def)

theorem bounding_box_rejection_witness:
  "\<not> (44.0 \<le> (60::real) \<and> (60::real) \<le> 52.5 \<and> 22.0 \<le> (30::real) \<and> (30::real) \<le> 40.5) \<and>
   save_city_coordinates flow db_kyiv [0x41A, 0x438, 0x457, 0x432] [0x41A, 0x438, 0x457, 0x432, 0x449, 0x438, 0x43D, 0x430] 60 30 0.8 (cps ''Gemini'') = (False, db_kyiv) \<and>
   save_region_coordinates flow db_kyiv [0x41A, 0x438, 0x457, 0x432, 0x449, 0x438, 0x43D, 0x430] 60 30 0.8 (cps ''Gemini'') = (False, db_kyiv)"
proof -
  have h: "\<not> (44.0 \<le> (60::real) \<and> (60::real) \<le> 52.5 \<and> 22.0 \<le> (30::real) \<and> (30::real) \<le> 40.5)"
    by simp
  show ?thesis using h bounding_box_rejection [OF h] by (rule conjI)
qed

text \<open>
  C4. The claim: every region-keyed read and write normalizes the name, so a listed
  misspelling resolves to the fact that a single \<^verbatim>\<open>save_region_coordinates\<close> stored. The code
  at that input: \<^verbatim>\<open>save_region_coordinates\<close> called with the listed misspelling stores the
  corrected, title-cased name; \<^verbatim>\<open>get_region_coordinates\<close> called with the same misspelling
  then finds nothing, because it compares the stripped argument and never calls
  \<^verbatim>\<open>normalize_region_name\<close>; the corrected name does find the fact. The read of the other
  table, \<^verbatim>\<open>get_city_coordinates\<close>, normalizes the region name and finds a locality saved
  under the same misspelling.
\<close>

theorem get_region_skips_normalization:
  "save_region_coordinates flow db_empty
     [0x445, 0x43C, 0x435, 0x43B, 0x44C, 0x43D, 0x438, 0x447, 0x435, 0x43D, 0x430] 49.42 26.98 0.8 (cps ''Gemini'') =
     (True, \<lparr>cities_tbl = [],
             regions_tbl = [\<lparr>r_id = 1,
                         r_region_name = [0x425, 0x43C, 0x435, 0x43B, 0x44C, 0x43D, 0x438, 0x447, 0x447, 0x438, 0x43D, 0x430],
                         r_latitude = 49.42, r_longitude = 26.98, r_confidence = 0.8,
                         r_source = cps ''Gemini''\<rparr>],
             cities_seq = 0, regions_seq = 1\<rparr>) \<and>
   get_region_coordinates
     (snd (save_region_coordinates flow db_empty
       [0x445, 0x43C, 0x435, 0x43B, 0x44C, 0x43D, 0x438, 0x447, 0x435, 0x43D, 0x430] 49.42 26.98 0.8 (cps ''Gemini'')))
     [0x445, 0x43C, 0x435, 0x43B, 0x44C, 0x43D, 0x438, 0x447, 0x435, 0x43D, 0x430] = None \<and>
   get_region_coordinates
     (snd (save_region_coordinates flow db_empty
       [0x445, 0x43C, 0x435, 0x43B, 0x44C, 0x43D, 0x438, 0x447, 0x435, 0x43D, 0x430] 49.42 26.98 0.8 (cps ''Gemini'')))
     [0x425, 0x43C, 0x435, 0x43B, 0x44C, 0x43D, 0x438, 0x447, 0x447, 0x438, 0x43D, 0x430] =
     Some \<lparr>hit_latitude = 49.42, hit_longitude = 26.98, hit_confidence = 0.8,
           hit_source = cps ''database_Gemini''\<rparr> \<and>
   get_city_coordinates flow
     (snd (save_city_coordinates flow db_empty [0x41A, 0x438, 0x457, 0x432]
       [0x445, 0x43C, 0x435, 0x43B, 0x44C, 0x43D, 0x438, 0x447, 0x435, 0x43D, 0x430] 49.42 26.98 0.8 (cps ''Gemini'')))
     [0x41A, 0x438, 0x457, 0x432]
     [0x445, 0x43C, 0x435, 0x43B, 0x44C, 0x43D, 0x438, 0x447, 0x435, 0x43D, 0x430] =
     Some \<lparr>hit_latitude = 49.42, hit_longitude = 26.98, hit_confidence = 0.8,
           hit_source = cps ''database_Gemini''\<rparr>"
  by (simp add: save_region_coordinates_def save_city_coordinates_def get_region_coordinates_def
      get_city_coordinates_def validate_ukraine_coordinates_def normalize_region_name_def flow_def
      corrections_table_def db_empty_def sql_lower_def next_id_def database_source_def str_eval)

text \<open>
  The comparison under \<^verbatim>\<open>LOWER\<close> folds Basic Latin letters only: the stored name written
  in lower-case Cyrillic letters does not find the fact either, while an ASCII name is
  found in any case.
\<close>

lemma get_region_coordinates_cyrillic_case:
  "get_region_coordinates
     \<lparr>cities_tbl = [],
      regions_tbl = [\<lparr>r_id = 1,
                       r_region_name = [0x425, 0x43C, 0x435, 0x43B, 0x44C, 0x43D, 0x438, 0x447, 0x447, 0x438, 0x43D, 0x430],
                       r_latitude = 49.42, r_longitude = 26.98, r_confidence = 0.8,
                       r_source = cps ''Gemini''\<rparr>],
      cities_seq = 0, regions_seq = 1\<rparr>
     [0x445, 0x43C, 0x435, 0x43B, 0x44C, 0x43D, 0x438, 0x447, 0x447, 0x438, 0x43D, 0x430] = None \<and>
   get_region_coordinates db_dup (cps ''KYIV'') =
     Some \<lparr>hit_latitude = 50.4, hit_longitude = 30.5, hit_confidence = 0.8,
           hit_source = cps ''database_manual''\<rparr>"
  by (simp add: get_region_coordinates_def sql_lower_def database_source_def db_dup_def str_eval)

text \<open>
  C9. \<^verbatim>\<open>normalize_region_name\<close> is idempotent on every string over the tabulated alphabet
  (Basic Latin and the Cyrillic letters): the call returns a name, and normalizing that
  name returns it unchanged.
\<close>

theorem normalize_region_name_idempotent:
  assumes "list_all tabulated s"
  shows "\<exists>t. normalize_region_name flow s = Inr t \<and> normalize_region_name flow t = Inr t"
proof (cases "map_of corrections_table (py_lower (py_strip s))")
  case (Some v)
  then have "normalize_region_name flow s = Inr (py_title v)"
    by (simp add: normalize_region_name_def flow_def)
  with corrected_fixed [OF Some] show ?thesis by simp
next
  case None
  let ?u = "py_strip s"
  let ?t = "py_title ?u"
  have tab: "list_all tabulated ?u"
    using assms set_py_strip [of s] by (auto simp: list_all_iff)
  have t: "normalize_region_name flow s = Inr ?t"
    using None by (simp add: normalize_region_name_def flow_def)
  have "trimmed ?t" unfolding py_title_def
    by (rule trimmed_do_title [OF tab trimmed_py_strip])
  then have st: "py_strip ?t = ?t" by (rule py_strip_trimmed)
  have lo: "py_lower ?t = py_lower ?u"
    unfolding py_title_def by (rule py_lower_do_title [OF tab])
  have ti: "py_title ?t = ?t"
    unfolding py_title_def by (rule do_title_idem [OF tab])
  have "normalize_region_name flow ?t = Inr ?t"
    using None by (simp add: normalize_region_name_def flow_def st lo ti)
  with t show ?thesis by simp
qed

theorem normalize_region_name_idempotent_witness:
  "list_all tabulated [0x20, 0x445, 0x43C, 0x435, 0x43B, 0x44C, 0x43D, 0x438, 0x427, 0x435, 0x43D, 0x430] \<and>
   (\<exists>t. normalize_region_name flow [0x20, 0x445, 0x43C, 0x435, 0x43B, 0x44C, 0x43D, 0x438, 0x427, 0x435, 0x43D, 0x430] = Inr t \<and>
        normalize_region_name flow t = Inr t)"
proof -
  have h: "list_all tabulated [0x20, 0x445, 0x43C, 0x435, 0x43B, 0x44C, 0x43D, 0x438, 0x427, 0x435, 0x43D, 0x430]"
    by (simp add: tabulated_def)
  show ?thesis using h normalize_region_name_idempotent [OF h] by (rule conjI)
qed

text \<open>
  Idempotence fails outside that alphabet. U+01F0 title-cases to the two code points
  U+004A U+030C; in the result the letter that follows comes after the uncased U+030C, so
  normalizing again title-cases it.
\<close>

theorem normalize_region_name_not_idempotent:
  "normalize_region_name flow [0x1F0, 0x61] = Inr [0x4A, 0x30C, 0x61] \<and>
   normalize_region_name flow [0x4A, 0x30C, 0x61] = Inr [0x4A, 0x30C, 0x41]"
  by (simp add: normalize_region_name_def flow_def corrections_table_def str_eval)

text \<open>
  C5. The claim: on any store \<^verbatim>\<open>clean_region_duplicates\<close> keeps, of each group of rows with
  the same case-insensitive name, the row with the highest identifier, deletes the others,
  returns the number deleted and leaves at most one row per name. The code on the store
  with the rows (1, Kyiv) and (2, kyiv): in the constructor, the only caller, the method
  runs before \<^verbatim>\<open>region_corrections\<close> is assigned, \<^verbatim>\<open>normalize_region_name\<close> raises, the
  handler returns 0 and both rows stay. Called on the constructed object it renames row 2
  to the normalized name Kyiv while row 1 still holds that name, the \<^verbatim>\<open>UNIQUE\<close> constraint
  fails, the transaction is rolled back and the method again returns 0 with both rows in
  the store.
\<close>

theorem clean_region_duplicates_keeps_duplicates:
  "clean_region_duplicates flow_in_init db_dup = (0, db_dup) \<and>
   SQLiteFlow_init db_dup = (flow, db_dup) \<and>
   clean_region_duplicates flow db_dup = (0, db_dup) \<and>
   map r_region_name (regions_tbl db_dup) = [cps ''Kyiv'', cps ''kyiv'']"
  by (simp add: clean_region_duplicates_def SQLiteFlow_init_def duplicate_groups_db_dup clean_group_def split_on_def
      normalize_region_name_def flow_in_init_def flow_def corrections_table_def update_region_name_def str_eval)
     (simp add: db_dup_def cps_def)




text \<open>
  C10. Every line of the bulletin that, stripped, ends in a colon has its name (the line
  without its colons) among the keys of the result; and when no line matches either item
  pattern, every region of the result is mapped to the empty list.
\<close>

theorem header_line_creates_entry:
  "(\<forall>l \<in> set (split_on 0xA (py_strip text)).
      endswith_colon (py_strip l) \<longrightarrow>
      remove_colons (py_strip l) \<in> set (map fst (extract_weapon_info text))) \<and>
   ((\<forall>l \<in> set (split_on 0xA (py_strip text)).
       re_search group_kr_pattern (py_strip l) = None \<and>
       re_search standard_pattern (py_strip l) = None) \<longrightarrow>
    list_all (\<lambda>entry. snd entry = []) (extract_weapon_info text))"
  using foldl_process_line_header [of _ "split_on 0xA (py_strip text)" "([], None)"]
    foldl_process_line_no_events [of "([], None)" "split_on 0xA (py_strip text)"]
  by (auto simp: extract_weapon_info_def no_events_def)

theorem header_line_creates_entry_witness:
  "split_on 0xA (py_strip bulletin_quiet) =
     [[0x41E, 0x434, 0x435, 0x449, 0x438, 0x43D, 0x430, 0x3A], [0x43F, 0x440, 0x438, 0x432, 0x456, 0x442]] \<and>
   endswith_colon (py_strip [0x41E, 0x434, 0x435, 0x449, 0x438, 0x43D, 0x430, 0x3A]) \<and>
   re_search group_kr_pattern (py_strip [0x41E, 0x434, 0x435, 0x449, 0x438, 0x43D, 0x430, 0x3A]) = None \<and>
   re_search standard_pattern (py_strip [0x41E, 0x434, 0x435, 0x449, 0x438, 0x43D, 0x430, 0x3A]) = None \<and>
   re_search group_kr_pattern (py_strip [0x43F, 0x440, 0x438, 0x432, 0x456, 0x442]) = None \<and>
   re_search standard_pattern (py_strip [0x43F, 0x440, 0x438, 0x432, 0x456, 0x442]) = None \<and>
   remove_colons (py_strip [0x41E, 0x434, 0x435, 0x449, 0x438, 0x43D, 0x430, 0x3A])
     \<in> set (map fst (extract_weapon_info bulletin_quiet)) \<and>
   list_all (\<lambda>entry. snd entry = []) (extract_weapon_info bulletin_quiet)"
proof -
  have l: "split_on 0xA (py_strip bulletin_quiet) =
      [[0x41E, 0x434, 0x435, 0x449, 0x438, 0x43D, 0x430, 0x3A], [0x43F, 0x440, 0x438, 0x432, 0x456, 0x442]]"
    unfolding bulletin_quiet_def by (simp add: strip_eval split_on_def)
  have s: "py_strip [0x41E, 0x434, 0x435, 0x449, 0x438, 0x43D, 0x430, 0x3A] = [0x41E, 0x434, 0x435, 0x449, 0x438, 0x43D, 0x430, 0x3A]"
    "py_strip [0x43F, 0x440, 0x438, 0x432, 0x456, 0x442] = [0x43F, 0x440, 0x438, 0x432, 0x456, 0x442]"
    by (simp_all add: strip_eval)
  have 2: "endswith_colon (py_strip [0x41E, 0x434, 0x435, 0x449, 0x438, 0x43D, 0x430, 0x3A])"
    unfolding s by (simp add: endswith_colon_def)
  have 3: "re_search group_kr_pattern (py_strip [0x41E, 0x434, 0x435, 0x449, 0x438, 0x43D, 0x430, 0x3A]) = None"
    "re_search standard_pattern (py_strip [0x41E, 0x434, 0x435, 0x449, 0x438, 0x43D, 0x430, 0x3A]) = None"
    "re_search group_kr_pattern (py_strip [0x43F, 0x440, 0x438, 0x432, 0x456, 0x442]) = None"
    "re_search standard_pattern (py_strip [0x43F, 0x440, 0x438, 0x432, 0x456, 0x442]) = None"
    unfolding s by (simp_all add: re_eval)
  note t = header_line_creates_entry [of bulletin_quiet, unfolded l]
  show ?thesis using l 2 3 t by simp
qed

text \<open>
  C6. With random draws in [0, 1): an attempt \<open>n\<close> below the last that fails with a quota
  error is followed by a sleep of 10 times 2 to the \<open>n\<close> seconds plus a jitter between 1
  and 5 seconds, and then by the rest of the loop; when every attempt fails with a quota
  error the method makes all \<^verbatim>\<open>max_retries\<close> calls with those sleeps between them and
  returns \<open>None\<close>; and \<open>None\<close> is what it returns whenever no attempt brings a non-empty
  text, whatever the failures were.
\<close>

theorem quota_backoff_and_exhaustion:
  assumes rnd: "\<forall>n. 0 \<le> rnd n \<and> rnd n < 1"
  shows "(\<forall>n msg rest. service n = Raises msg \<and> is_quota_error msg \<and> int n < max_retries self - 1 \<longrightarrow>
            retry_loop self service rnd (n # rest) =
              (fst (retry_loop self service rnd rest),
               Call n # Sleep (10 * 2 ^ n + uniform 1 5 (rnd n)) # snd (retry_loop self service rnd rest)) \<and>
            1 \<le> uniform 1 5 (rnd n) \<and> uniform 1 5 (rnd n) \<le> 5) \<and>
         ((\<forall>n. n < nat (max_retries self) \<longrightarrow> (\<exists>msg. service n = Raises msg \<and> is_quota_error msg)) \<longrightarrow>
            rate_limited_api_call self time_since_last_call service rnd =
              (None,
               (if time_since_last_call < api_delay self
                then [Sleep (api_delay self - time_since_last_call)] else []) @
               quota_trace (nat (max_retries self)) rnd [0..<nat (max_retries self)])) \<and>
         ((\<forall>n. n < nat (max_retries self) \<longrightarrow> (\<forall>text. service n = Response text \<longrightarrow> text = [])) \<longrightarrow>
            fst (rate_limited_api_call self time_since_last_call service rnd) = None)"
proof (intro conjI allI impI)
  fix n msg rest
  assume a: "service n = Raises msg \<and> is_quota_error msg \<and> int n < max_retries self - 1"
  then show "retry_loop self service rnd (n # rest) =
              (fst (retry_loop self service rnd rest),
               Call n # Sleep (10 * 2 ^ n + uniform 1 5 (rnd n)) # snd (retry_loop self service rnd rest))"
    using retry_loop_quota_step by blast
  show "1 \<le> uniform 1 5 (rnd n)" "uniform 1 5 (rnd n) \<le> 5"
    using uniform_bounds [of "rnd n" 1 5] rnd by simp_all
next
  assume "\<forall>n. n < nat (max_retries self) \<longrightarrow> (\<exists>msg. service n = Raises msg \<and> is_quota_error msg)"
  then have "retry_loop self service rnd [0..<nat (max_retries self)] =
      (None, quota_trace (nat (max_retries self)) rnd [0..<nat (max_retries self)])"
    using retry_loop_all_quota [of "nat (max_retries self)" service self 0 rnd] by simp
  then show "rate_limited_api_call self time_since_last_call service rnd =
              (None,
               (if time_since_last_call < api_delay self
                then [Sleep (api_delay self - time_since_last_call)] else []) @
               quota_trace (nat (max_retries self)) rnd [0..<nat (max_retries self)])"
    by (simp add: rate_limited_api_call_def)
next
  assume "\<forall>n. n < nat (max_retries self) \<longrightarrow> (\<forall>text. service n = Response text \<longrightarrow> text = [])"
  then have "fst (retry_loop self service rnd [0..<nat (max_retries self)]) = None"
    using retry_loop_no_text [of "[0..<nat (max_retries self)]" service self rnd] by simp
  then show "fst (rate_limited_api_call self time_since_last_call service rnd) = None"
    by (cases "retry_loop self service rnd [0..<nat (max_retries self)]")
       (simp add: rate_limited_api_call_def)
qed

theorem quota_backoff_and_exhaustion_witness:
  "(\<forall>n. (0::real) \<le> 1 / 2 \<and> (1::real) / 2 < 1) \<and>
   is_quota_error quota_message \<and> (0::int) < max_retries default_config - 1 \<and>
   retry_loop default_config (\<lambda>n. Raises quota_message) (\<lambda>n. 1 / 2) [0, 1, 2] =
     (fst (retry_loop default_config (\<lambda>n. Raises quota_message) (\<lambda>n. 1 / 2) [1, 2]),
      Call 0 # Sleep (10 * 2 ^ 0 + uniform 1 5 (1 / 2)) #
      snd (retry_loop default_config (\<lambda>n. Raises quota_message) (\<lambda>n. 1 / 2) [1, 2])) \<and>
   rate_limited_api_call default_config 1 (\<lambda>n. Raises quota_message) (\<lambda>n. 1 / 2) =
     (None, [Sleep 1, Call 0, Sleep 13, Call 1, Sleep 23, Call 2])"
proof -
  have r: "\<forall>n. (0::real) \<le> (\<lambda>n. 1 / 2) n \<and> (\<lambda>n. (1::real) / 2) n < 1" by simp
  have q: "is_quota_error quota_message" by (rule messages)
  have m: "(0::int) < max_retries default_config - 1" by (simp add: default_config_def)
  note t = quota_backoff_and_exhaustion [OF r, of "\<lambda>n. Raises quota_message" default_config 1]
  have 1: "retry_loop default_config (\<lambda>n. Raises quota_message) (\<lambda>n. 1 / 2) [0, 1, 2] =
     (fst (retry_loop default_config (\<lambda>n. Raises quota_message) (\<lambda>n. 1 / 2) [1, 2]),
      Call 0 # Sleep (10 * 2 ^ 0 + uniform 1 5 (1 / 2)) #
      snd (retry_loop default_config (\<lambda>n. Raises quota_message) (\<lambda>n. 1 / 2) [1, 2]))"
    using t q m by simp
  have "rate_limited_api_call default_config 1 (\<lambda>n. Raises quota_message) (\<lambda>n. 1 / 2) =
     (None, (if (1::real) < api_delay default_config then [Sleep (api_delay default_config - 1)] else []) @
            quota_trace (nat (max_retries default_config)) (\<lambda>n. 1 / 2) [0..<nat (max_retries default_config)])"
    using t q by simp
  then have 2: "rate_limited_api_call default_config 1 (\<lambda>n. Raises quota_message) (\<lambda>n. 1 / 2) =
     (None, [Sleep 1, Call 0, Sleep 13, Call 1, Sleep 23, Call 2])"
    by (simp add: default_config_def quota_trace_def upt_3 uniform_def)
  show ?thesis using q m 1 2 by simp
qed

text \<open>
  The method has no failure kinds: with attempts exhausted on quota errors, on rate-limit
  errors or on other errors it returns the same \<open>None\<close>.
\<close>

theorem failure_kinds_not_distinguished:
  "is_quota_error quota_message \<and>
   \<not> is_quota_error rate_limit_message \<and> is_rate_limit_error rate_limit_message \<and>
   \<not> is_quota_error other_message \<and> \<not> is_rate_limit_error other_message \<and>
   fst (rate_limited_api_call default_config 1 (\<lambda>n. Raises quota_message) (\<lambda>n. 1 / 2)) = None \<and>
   fst (rate_limited_api_call default_config 1 (\<lambda>n. Raises rate_limit_message) (\<lambda>n. 1 / 2)) = None \<and>
   fst (rate_limited_api_call default_config 1 (\<lambda>n. Raises other_message) (\<lambda>n. 1 / 2)) = None"
  by (simp add: messages rate_limited_api_call_def default_config_def upt_3 Let_def)

text \<open>
  C1. One resolution of a region sends at most one request to the enrichment client. The
  request is sent exactly when some item of the region is not resolved by the store or the
  store has no fact for the region, and it carries the region and exactly the items whose
  locality read missed, in their order; no item whose locality the store resolves is in a
  request.
\<close>

theorem one_enrichment_call_with_misses_only:
  "snd (snd (get_region_coordinates_from_ai self_db enrich db region_name weapons_list)) =
     (if unresolved self_db db region_name weapons_list \<noteq> [] \<or>
         get_region_coordinates db region_name = None
      then [\<lparr>req_region = region_name,
             req_weapons = unresolved self_db db region_name weapons_list\<rparr>]
      else []) \<and>
   length (snd (snd (get_region_coordinates_from_ai self_db enrich db region_name weapons_list))) \<le> 1 \<and>
   (\<forall>request \<in> set (snd (snd (get_region_coordinates_from_ai self_db enrich db region_name weapons_list))).
      \<forall>weapon \<in> set (req_weapons request).
        weapon \<in> set weapons_list \<and>
        get_city_coordinates self_db db (w_target_city weapon) region_name = None) \<and>
   (\<forall>weapon \<in> set weapons_list.
      get_city_coordinates self_db db (w_target_city weapon) region_name \<noteq> None \<longrightarrow>
      (\<forall>request \<in> set (snd (snd (get_region_coordinates_from_ai self_db enrich db region_name weapons_list))).
         w_target_city weapon \<notin> set (map w_target_city (req_weapons request))))"
  unfolding calls_of_get_region_coordinates_from_ai
  by (auto simp: unresolved_def)

theorem one_enrichment_call_with_misses_only_witness:
  "get_city_coordinates flow db_kyiv (w_target_city weapon_kyiv) kyivshchyna \<noteq> None \<and>
   get_city_coordinates flow db_kyiv (w_target_city weapon_brovary) kyivshchyna = None \<and>
   get_region_coordinates db_kyiv kyivshchyna \<noteq> None \<and>
   snd (snd (get_region_coordinates_from_ai flow (\<lambda>request. Api_none) db_kyiv kyivshchyna
              [weapon_kyiv, weapon_brovary])) =
     [\<lparr>req_region = kyivshchyna, req_weapons = [weapon_brovary]\<rparr>] \<and>
   snd (snd (get_region_coordinates_from_ai flow (\<lambda>request. Api_none) db_kyiv kyivshchyna
              [weapon_kyiv])) = []"
proof -
  have u: "unresolved flow db_kyiv kyivshchyna [weapon_kyiv, weapon_brovary] = [weapon_brovary]"
    "unresolved flow db_kyiv kyivshchyna [weapon_kyiv] = []"
    using kyiv_hit brovary_miss by (simp_all add: unresolved_def)
  note t1 = one_enrichment_call_with_misses_only
    [of flow "\<lambda>request. Api_none" db_kyiv kyivshchyna "[weapon_kyiv, weapon_brovary]", THEN conjunct1]
  note t2 = one_enrichment_call_with_misses_only
    [of flow "\<lambda>request. Api_none" db_kyiv kyivshchyna "[weapon_kyiv]", THEN conjunct1]
  show ?thesis
    using kyiv_hit brovary_miss kyivshchyna_known t1 t2 by (simp add: u)
qed



end
